theory Spec2Isabelle
  imports Complex_Main "HOL-Library.Word"
begin

unbundle bit_operations_syntax

section \<open>Handles, atoms, result codes\<close>

text \<open>
  Handles and atoms of the API are 64-bit values; \<open>XR_NULL_PATH\<close> and
  \<open>XR_NULL_HANDLE\<close> are both 0. The only instance and the only session the runtime
  accepts are the handle 1.
\<close>

type_synonym XrPath = "64 word"
type_synonym XrInstance = "64 word"
type_synonym XrSession = "64 word"
type_synonym XrActionSet = "64 word"
type_synonym XrAction = "64 word"
type_synonym XrTime = "64 word"
type_synonym XrBool32 = "32 word"

definition XR_NULL_PATH :: XrPath where
  "XR_NULL_PATH = 0"

definition XR_NULL_HANDLE :: "64 word" where
  "XR_NULL_HANDLE = 0"

definition XR_FALSE :: XrBool32 where
  "XR_FALSE = 0"

text \<open>
  The failures of an entry point. The first seven are the \<open>XrResult\<close> error codes that
  action.cpp returns; success is the \<open>Inr\<close> side of the result. The others are the ways
  a call leaves without an \<open>XrResult\<close> of its own: \<open>CHECK_PVRCMD\<close> on a failed PVR
  command, \<open>sprintf_s\<close> on a buffer that is too small, the read through a null field
  pointer, and \<open>find(...)->second\<close> on a key the mapping table does not hold.
\<close>

datatype error =
    XR_ERROR_VALIDATION_FAILURE
  | XR_ERROR_HANDLE_INVALID
  | XR_ERROR_PATH_INVALID
  | XR_ERROR_SIZE_INSUFFICIENT
  | XR_ERROR_ACTION_TYPE_MISMATCH
  | XR_ERROR_ACTIONSET_NOT_ATTACHED
  | XR_ERROR_ACTIONSETS_ALREADY_ATTACHED
  | PVR_COMMAND_FAILED
  | SPRINTF_S_BUFFER_TOO_SMALL
  | NULL_POINTER_READ
  | MAPPING_NOT_FOUND

datatype XrStructureType =
    XR_TYPE_UNKNOWN
  | XR_TYPE_ACTION_SET_CREATE_INFO
  | XR_TYPE_ACTION_CREATE_INFO
  | XR_TYPE_INTERACTION_PROFILE_SUGGESTED_BINDING
  | XR_TYPE_SESSION_ACTION_SETS_ATTACH_INFO
  | XR_TYPE_INTERACTION_PROFILE_STATE
  | XR_TYPE_ACTION_STATE_GET_INFO
  | XR_TYPE_ACTION_STATE_BOOLEAN
  | XR_TYPE_ACTION_STATE_FLOAT
  | XR_TYPE_ACTION_STATE_VECTOR2F
  | XR_TYPE_ACTION_STATE_POSE
  | XR_TYPE_ACTIONS_SYNC_INFO
  | XR_TYPE_BOUND_SOURCES_FOR_ACTION_ENUMERATE_INFO
  | XR_TYPE_INPUT_SOURCE_LOCALIZED_NAME_GET_INFO
  | XR_TYPE_HAPTIC_ACTION_INFO
  | XR_TYPE_HAPTIC_VIBRATION

datatype XrActionType =
    XR_ACTION_TYPE_BOOLEAN_INPUT
  | XR_ACTION_TYPE_FLOAT_INPUT
  | XR_ACTION_TYPE_VECTOR2F_INPUT
  | XR_ACTION_TYPE_POSE_INPUT
  | XR_ACTION_TYPE_VIBRATION_OUTPUT

section \<open>Floating-point values\<close>

text \<open>
  action.cpp copies floating-point values and compares them (\<open>!=\<close>, \<open>> 0.99f\<close>,
  \<open>> 0\<close>); it does no arithmetic on them. A value is a number, an infinity or a NaN,
  and the two comparisons are the IEEE ones: every ordered comparison with a NaN is
  false, and \<open>!=\<close> with a NaN is true (also of a NaN with itself).
\<close>

datatype ieee_float = Finite rat | PlusInfinity | MinusInfinity | NaN

fun float_gt :: "ieee_float \<Rightarrow> ieee_float \<Rightarrow> bool" where
  "float_gt NaN _ = False"
| "float_gt _ NaN = False"
| "float_gt (Finite a) (Finite b) = (b < a)"
| "float_gt PlusInfinity PlusInfinity = False"
| "float_gt PlusInfinity _ = True"
| "float_gt _ PlusInfinity = False"
| "float_gt MinusInfinity _ = False"
| "float_gt (Finite a) MinusInfinity = True"

fun float_ne :: "ieee_float \<Rightarrow> ieee_float \<Rightarrow> bool" where
  "float_ne NaN _ = True"
| "float_ne _ NaN = True"
| "float_ne a b = (a \<noteq> b)"

text \<open>The single-precision literal \<open>0.99f\<close> is the float nearest to 0.99.\<close>

definition float_0_99f :: ieee_float where
  "float_0_99f = Finite (16609444 / 16777216)"

datatype XrVector2f = XrVector2f (vec_x: ieee_float) (vec_y: ieee_float)

section \<open>String helpers\<close>

text \<open>
  Modelled from the spec: \<open>startsWith\<close> and \<open>endsWith\<close> of utils.h, which is not
  under src/. The spec speaks of a path "prefixed" by a hand path and of a bound path
  that "ends in" the output suffix: the prefix test and the suffix test on strings.
\<close>

definition startsWith :: "string \<Rightarrow> string \<Rightarrow> bool" where
  "startsWith str substr = (take (length substr) str = substr)"

definition endsWith :: "string \<Rightarrow> string \<Rightarrow> bool" where
  "endsWith str substr =
     (length substr \<le> length str \<and> drop (length str - length substr) str = substr)"

section \<open>Arrays of two hands\<close>

text \<open>
  The per-hand members are C arrays of length 2 indexed by \<open>side\<close>, which is 0 for the
  left hand and 1 for the right. Every index in action.cpp is guarded by \<open>side >= 0\<close>
  after \<open>getActionSide\<close>, or comes from the loop \<open>side < 2\<close>.
\<close>

definition at_side :: "'a \<times> 'a \<Rightarrow> int \<Rightarrow> 'a" where
  "at_side arr side = (if side = 0 then fst arr else snd arr)"

definition set_side :: "'a \<times> 'a \<Rightarrow> int \<Rightarrow> 'a \<Rightarrow> 'a \<times> 'a" where
  "set_side arr side v = (if side = 0 then (v, snd arr) else (fst arr, v))"

section \<open>The hardware input snapshot\<close>

text \<open>
  \<open>pvrInputState\<close> with the members that \<open>xrSyncActions\<close> reads: two button bitmasks,
  scalar axes and two-axis sticks per hand, and the time of the snapshot.
\<close>

record pvrInputState =
  TimeInSeconds :: ieee_float
  HandButtons :: "32 word \<times> 32 word"
  HandTouches :: "32 word \<times> 32 word"
  Trigger :: "ieee_float \<times> ieee_float"
  Grip :: "ieee_float \<times> ieee_float"
  GripForce :: "ieee_float \<times> ieee_float"
  JoyStick :: "XrVector2f \<times> XrVector2f"
  TouchPad :: "XrVector2f \<times> XrVector2f"
  TouchPadForce :: "ieee_float \<times> ieee_float"
  fingerIndex :: "ieee_float \<times> ieee_float"
  fingerMiddle :: "ieee_float \<times> ieee_float"
  fingerRing :: "ieee_float \<times> ieee_float"
  fingerPinky :: "ieee_float \<times> ieee_float"

text \<open>
  The field pointers of an action (\<open>buttonMap\<close>, \<open>floatValue\<close>, \<open>vector2fValue\<close>) point
  at one of the per-hand arrays of the cached snapshot, or are null. A pointer is the
  name of the array it points at; null is \<open>None\<close>.
\<close>

datatype button_array = In_HandButtons | In_HandTouches

datatype float_array =
    In_Trigger | In_Grip | In_GripForce | In_TouchPadForce
  | In_fingerIndex | In_fingerMiddle | In_fingerRing | In_fingerPinky

datatype vector2f_array = In_JoyStick | In_TouchPad

fun read_buttons :: "pvrInputState \<Rightarrow> button_array \<Rightarrow> int \<Rightarrow> 32 word" where
  "read_buttons s In_HandButtons side = at_side (HandButtons s) side"
| "read_buttons s In_HandTouches side = at_side (HandTouches s) side"

fun read_float :: "pvrInputState \<Rightarrow> float_array \<Rightarrow> int \<Rightarrow> ieee_float" where
  "read_float s In_Trigger side = at_side (Trigger s) side"
| "read_float s In_Grip side = at_side (Grip s) side"
| "read_float s In_GripForce side = at_side (GripForce s) side"
| "read_float s In_TouchPadForce side = at_side (TouchPadForce s) side"
| "read_float s In_fingerIndex side = at_side (fingerIndex s) side"
| "read_float s In_fingerMiddle side = at_side (fingerMiddle s) side"
| "read_float s In_fingerRing side = at_side (fingerRing s) side"
| "read_float s In_fingerPinky side = at_side (fingerPinky s) side"

fun read_vector2f :: "pvrInputState \<Rightarrow> vector2f_array \<Rightarrow> int \<Rightarrow> XrVector2f" where
  "read_vector2f s In_JoyStick side = at_side (JoyStick s) side"
| "read_vector2f s In_TouchPad side = at_side (TouchPad s) side"

section \<open>Actions and the runtime state\<close>

text \<open>
  Modelled from the spec: the \<open>Action\<close> struct of runtime.h, which is not under src/.
  Its members are the ones action.cpp reads and writes. The cached boolean is a
  \<open>bool\<close> ("a freshly created action defaults to a zero/false cached value"), the
  other cached values have the type of the state they are copied from.
\<close>

record Action =
  type :: XrActionType
  actionSet :: XrActionSet
  lastFloatValue :: ieee_float
  lastFloatValueChangedTime :: XrTime
  lastVector2fValue :: XrVector2f
  lastVector2fValueChangedTime :: XrTime
  lastBoolValue :: bool
  lastBoolValueChangedTime :: XrTime
  path :: string
  buttonMap :: "button_array option"
  buttonType :: "32 word"
  floatValue :: "float_array option"
  vector2fValue :: "vector2f_array option"
  vector2fIndex :: int

text \<open>
  Modelled from the spec: the members of a new \<open>Action\<close> before \<open>xrCreateAction\<close> sets
  its type and set (the default member initialisers are in runtime.h): cached values
  zero or false, no bound path, null field pointers.
\<close>

definition new_Action :: Action where
  "new_Action =
     \<lparr>type = XR_ACTION_TYPE_BOOLEAN_INPUT, actionSet = 0,
      lastFloatValue = Finite 0, lastFloatValueChangedTime = 0,
      lastVector2fValue = XrVector2f (Finite 0) (Finite 0), lastVector2fValueChangedTime = 0,
      lastBoolValue = False, lastBoolValueChangedTime = 0,
      path = [], buttonMap = None, buttonType = 0, floatValue = None,
      vector2fValue = None, vector2fIndex = -1\<rparr>"

record XrActionSuggestedBinding =
  action :: XrAction
  binding :: XrPath

text \<open>
  The aim pose of a hand is one of three constants of \<open>rebindControllerActions\<close>: the
  identity, or the pose of the Vive or of the Index controller.
\<close>

datatype XrPosef = Pose_Identity | Pose_ViveAim | Pose_IndexAim

text \<open>
  The members of \<open>OpenXrRuntime\<close> that action.cpp uses. \<open>m_strings\<close> is kept in the
  order of insertion, which is the order of the keys as long as \<open>m_stringIndex\<close> has
  not wrapped. \<open>m_actions\<close> holds the handles of the live actions together with the
  \<open>Action\<close> object each handle points to.
\<close>

record OpenXrRuntime =
  m_instanceCreated :: bool
  m_sessionCreated :: bool
  m_strings :: "(XrPath \<times> string) list"
  m_stringIndex :: "64 word"
  m_actionSets :: "XrActionSet set"
  m_actionSetIndex :: "64 word"
  m_actions :: "XrAction \<rightharpoonup> Action"
  m_suggestedBindings :: "string \<rightharpoonup> XrActionSuggestedBinding list"
  m_activeActionSets :: "XrActionSet set"
  m_frameLatchedActionSets :: "XrActionSet set"
  m_cachedInputState :: pvrInputState
  m_cachedControllerType :: "string \<times> string"
  m_isControllerActive :: "bool \<times> bool"
  m_localizedControllerType :: "string \<times> string"
  m_currentInteractionProfile :: "XrPath \<times> XrPath"
  m_controllerAimPose :: "XrPosef \<times> XrPosef"
  m_currentInteractionProfileDirty :: bool

section \<open>Paths\<close>

fun find_string :: "(XrPath \<times> string) list \<Rightarrow> string \<Rightarrow> XrPath option" where
  "find_string [] str = None"
| "find_string (entry # rest) str =
     (if snd entry = str then Some (fst entry) else find_string rest str)"

fun insert_or_assign :: "('k \<times> 'v) list \<Rightarrow> 'k \<Rightarrow> 'v \<Rightarrow> ('k \<times> 'v) list" where
  "insert_or_assign [] k v = [(k, v)]"
| "insert_or_assign (entry # rest) k v =
     (if fst entry = k then (k, v) # rest else entry # insert_or_assign rest k v)"

definition xrStringToPath ::
  "OpenXrRuntime \<Rightarrow> XrInstance \<Rightarrow> string \<Rightarrow> (error + XrPath) \<times> OpenXrRuntime" where
  "xrStringToPath rt instance pathString =
     (if instance \<noteq> XR_NULL_PATH \<and> (\<not> m_instanceCreated rt \<or> instance \<noteq> 1)
      then (Inl XR_ERROR_HANDLE_INVALID, rt)
      else case find_string (m_strings rt) pathString of
             Some p \<Rightarrow> (Inr p, rt)
           | None \<Rightarrow>
               (let p = m_stringIndex rt + 1
                in (Inr p, rt\<lparr>m_stringIndex := p,
                              m_strings := insert_or_assign (m_strings rt) p pathString\<rparr>)))"

text \<open>
  \<open>sprintf_s(buffer, capacity, "%s", str)\<close> writes the string and its terminator when
  they fit in \<open>capacity\<close> bytes and reports a constraint violation otherwise.
\<close>

definition sprintf_s :: "32 word \<Rightarrow> string \<Rightarrow> error + string" where
  "sprintf_s capacity str =
     (if length str < unat capacity then Inr str else Inl SPRINTF_S_BUFFER_TOO_SMALL)"

text \<open>
  The result of a two-call string query: the count written to \<open>bufferCountOutput\<close> and
  the text written to \<open>buffer\<close>, \<open>None\<close> when nothing is written. The argument
  \<open>buffer\<close> says whether the caller's buffer pointer is non-null.
\<close>

record string_output =
  bufferCountOutput :: "32 word"
  buffer_text :: "string option"

definition write_string ::
  "32 word \<Rightarrow> bool \<Rightarrow> string \<Rightarrow> error + string_output" where
  "write_string bufferCapacityInput buffer str =
     (if bufferCapacityInput \<noteq> 0 \<and> unat bufferCapacityInput < length str
      then Inl XR_ERROR_SIZE_INSUFFICIENT
      else let n = word_of_nat (length str) + 1
           in if bufferCapacityInput \<noteq> 0 \<and> buffer
              then case sprintf_s bufferCapacityInput str of
                     Inl e \<Rightarrow> Inl e
                   | Inr written \<Rightarrow> Inr \<lparr>bufferCountOutput = n, buffer_text = Some written\<rparr>
              else Inr \<lparr>bufferCountOutput = n, buffer_text = None\<rparr>)"

definition xrPathToString ::
  "OpenXrRuntime \<Rightarrow> XrInstance \<Rightarrow> XrPath \<Rightarrow> 32 word \<Rightarrow> bool \<Rightarrow> error + string_output" where
  "xrPathToString rt instance p bufferCapacityInput buffer =
     (if instance \<noteq> XR_NULL_PATH \<and> (\<not> m_instanceCreated rt \<or> instance \<noteq> 1)
      then Inl XR_ERROR_HANDLE_INVALID
      else case map_of (m_strings rt) p of
             None \<Rightarrow> Inl XR_ERROR_PATH_INVALID
           | Some str \<Rightarrow> write_string bufferCapacityInput buffer str)"

definition getXrPath :: "OpenXrRuntime \<Rightarrow> XrPath \<Rightarrow> string" where
  "getXrPath rt p =
     (if p = XR_NULL_PATH then []
      else case map_of (m_strings rt) p of
             None \<Rightarrow> ''<unknown>''
           | Some str \<Rightarrow> str)"

definition getActionPath :: "OpenXrRuntime \<Rightarrow> Action \<Rightarrow> XrPath \<Rightarrow> string" where
  "getActionPath rt xrAction subActionPath =
     (let p = (if subActionPath \<noteq> XR_NULL_PATH then getXrPath rt subActionPath else []);
          p' = (if p \<noteq> [] \<and> \<not> endsWith p ''/'' \<and> \<not> startsWith (path xrAction) ''/''
                then p @ ''/'' else p)
      in p' @ path xrAction)"

definition getActionSide :: "string \<Rightarrow> int" where
  "getActionSide fullPath =
     (if startsWith fullPath ''/user/hand/left'' then 0
      else if startsWith fullPath ''/user/hand/right'' then 1
      else -1)"

section \<open>xrGetCurrentInteractionProfile\<close>

definition xrGetCurrentInteractionProfile ::
  "OpenXrRuntime \<Rightarrow> XrSession \<Rightarrow> XrPath \<Rightarrow> XrStructureType \<Rightarrow> error + XrPath" where
  "xrGetCurrentInteractionProfile rt session topLevelUserPath interactionProfile_type =
     (if interactionProfile_type \<noteq> XR_TYPE_INTERACTION_PROFILE_STATE
      then Inl XR_ERROR_VALIDATION_FAILURE
      else if \<not> m_sessionCreated rt \<or> session \<noteq> 1 then Inl XR_ERROR_HANDLE_INVALID
      else let side = (if topLevelUserPath \<noteq> XR_NULL_PATH
                       then getActionSide (getXrPath rt topLevelUserPath) else 0)
           in if side \<ge> 0 then Inr (at_side (m_currentInteractionProfile rt) side)
              else Inr XR_NULL_PATH)"

section \<open>Action sets and actions\<close>

definition xrCreateActionSet ::
  "OpenXrRuntime \<Rightarrow> XrInstance \<Rightarrow> XrStructureType \<Rightarrow> (error + XrActionSet) \<times> OpenXrRuntime" where
  "xrCreateActionSet rt instance createInfo_type =
     (if createInfo_type \<noteq> XR_TYPE_ACTION_SET_CREATE_INFO
      then (Inl XR_ERROR_VALIDATION_FAILURE, rt)
      else if \<not> m_instanceCreated rt \<or> instance \<noteq> 1 then (Inl XR_ERROR_HANDLE_INVALID, rt)
      else let s = m_actionSetIndex rt + 1
           in (Inr s, rt\<lparr>m_actionSetIndex := s, m_actionSets := insert s (m_actionSets rt)\<rparr>))"

definition xrDestroyActionSet ::
  "OpenXrRuntime \<Rightarrow> XrActionSet \<Rightarrow> (error + unit) \<times> OpenXrRuntime" where
  "xrDestroyActionSet rt s =
     (if s \<notin> m_actionSets rt then (Inl XR_ERROR_HANDLE_INVALID, rt)
      else (Inr (), rt\<lparr>m_actionSets := m_actionSets rt - {s}\<rparr>))"

record XrActionCreateInfo =
  createInfo_type :: XrStructureType
  actionType :: XrActionType
  subactionPaths :: "XrPath list"

text \<open>
  \<open>new Action\<close> returns the address that becomes the handle; it is the argument
  \<open>address\<close>.
\<close>

definition xrCreateAction ::
  "OpenXrRuntime \<Rightarrow> XrActionSet \<Rightarrow> XrActionCreateInfo \<Rightarrow> XrAction
     \<Rightarrow> (error + XrAction) \<times> OpenXrRuntime" where
  "xrCreateAction rt s createInfo address =
     (if createInfo_type createInfo \<noteq> XR_TYPE_ACTION_CREATE_INFO
      then (Inl XR_ERROR_VALIDATION_FAILURE, rt)
      else if s \<notin> m_actionSets rt then (Inl XR_ERROR_HANDLE_INVALID, rt)
      else let xrAction = new_Action\<lparr>type := actionType createInfo, actionSet := s\<rparr>
           in (Inr address, rt\<lparr>m_actions := (m_actions rt)(address \<mapsto> xrAction)\<rparr>))"

definition xrDestroyAction ::
  "OpenXrRuntime \<Rightarrow> XrAction \<Rightarrow> (error + unit) \<times> OpenXrRuntime" where
  "xrDestroyAction rt a =
     (if m_actions rt a = None then (Inl XR_ERROR_HANDLE_INVALID, rt)
      else (Inr (), rt\<lparr>m_actions := (m_actions rt)(a := None)\<rparr>))"

section \<open>Suggested bindings and attachment\<close>

record XrInteractionProfileSuggestedBinding =
  suggestedBindings_type :: XrStructureType
  interactionProfile :: XrPath
  suggestedBindings :: "XrActionSuggestedBinding list"

definition xrSuggestInteractionProfileBindings ::
  "OpenXrRuntime \<Rightarrow> XrInstance \<Rightarrow> XrInteractionProfileSuggestedBinding
     \<Rightarrow> (error + unit) \<times> OpenXrRuntime" where
  "xrSuggestInteractionProfileBindings rt instance sb =
     (if suggestedBindings_type sb \<noteq> XR_TYPE_INTERACTION_PROFILE_SUGGESTED_BINDING
      then (Inl XR_ERROR_VALIDATION_FAILURE, rt)
      else if \<not> m_instanceCreated rt \<or> instance \<noteq> 1 then (Inl XR_ERROR_HANDLE_INVALID, rt)
      else if m_activeActionSets rt \<noteq> {} then (Inl XR_ERROR_ACTIONSETS_ALREADY_ATTACHED, rt)
      else (Inr (), rt\<lparr>m_suggestedBindings :=
                         (m_suggestedBindings rt)
                           (getXrPath rt (interactionProfile sb) \<mapsto> suggestedBindings sb)\<rparr>))"

record XrSessionActionSetsAttachInfo =
  attachInfo_type :: XrStructureType
  actionSets :: "XrActionSet list"

text \<open>
  The loop of \<open>xrAttachSessionActionSets\<close> over \<open>attachInfo->actionSets\<close>: each handle
  is checked and inserted in turn, and the first unknown handle returns.
\<close>

fun attach_each :: "OpenXrRuntime \<Rightarrow> XrActionSet list \<Rightarrow> (error + unit) \<times> OpenXrRuntime" where
  "attach_each rt [] = (Inr (), rt)"
| "attach_each rt (s # rest) =
     (if s \<notin> m_actionSets rt then (Inl XR_ERROR_HANDLE_INVALID, rt)
      else attach_each (rt\<lparr>m_activeActionSets := insert s (m_activeActionSets rt)\<rparr>) rest)"

definition xrAttachSessionActionSets ::
  "OpenXrRuntime \<Rightarrow> XrSession \<Rightarrow> XrSessionActionSetsAttachInfo
     \<Rightarrow> (error + unit) \<times> OpenXrRuntime" where
  "xrAttachSessionActionSets rt session attachInfo =
     (if attachInfo_type attachInfo \<noteq> XR_TYPE_SESSION_ACTION_SETS_ATTACH_INFO
      then (Inl XR_ERROR_VALIDATION_FAILURE, rt)
      else if \<not> m_sessionCreated rt \<or> session \<noteq> 1 then (Inl XR_ERROR_HANDLE_INVALID, rt)
      else if m_activeActionSets rt \<noteq> {} then (Inl XR_ERROR_ACTIONSETS_ALREADY_ATTACHED, rt)
      else attach_each rt (actionSets attachInfo))"

section \<open>Action state queries\<close>

record XrActionStateGetInfo =
  getInfo_type :: XrStructureType
  getInfo_action :: XrAction
  getInfo_subactionPath :: XrPath

text \<open>
  The result structs. \<open>XrActionStatePose\<close> has \<open>isActive\<close> only; the boolean, float
  and two-axis states add the value, the change flag and the change time.
\<close>

record XrActionStatePose =
  isActive :: XrBool32

record 'v XrActionState = XrActionStatePose +
  currentState :: 'v
  changedSinceLastSync :: XrBool32
  lastChangeTime :: XrTime

type_synonym XrActionStateBoolean = "XrBool32 XrActionState"
type_synonym XrActionStateFloat = "ieee_float XrActionState"
type_synonym XrActionStateVector2f = "XrVector2f XrActionState"

text \<open>
  The checks that the four queries and the two haptic calls share, after the check of
  the struct types: the session, the action handle, the type of the action and the
  attachment of its set.
\<close>

definition validate_action ::
  "OpenXrRuntime \<Rightarrow> XrSession \<Rightarrow> XrAction \<Rightarrow> XrActionType \<Rightarrow> error + Action" where
  "validate_action rt session a expected =
     (if \<not> m_sessionCreated rt \<or> session \<noteq> 1 then Inl XR_ERROR_HANDLE_INVALID
      else case m_actions rt a of
             None \<Rightarrow> Inl XR_ERROR_HANDLE_INVALID
           | Some xrAction \<Rightarrow>
               if type xrAction \<noteq> expected then Inl XR_ERROR_ACTION_TYPE_MISMATCH
               else if actionSet xrAction \<notin> m_activeActionSets rt
               then Inl XR_ERROR_ACTIONSET_NOT_ATTACHED
               else Inr xrAction)"

text \<open>
  \<open>isActive\<close> and \<open>currentState\<close> of \<open>xrGetActionStateBoolean\<close>, as computed between
  the validation and the change detection.
\<close>

definition boolean_state ::
  "OpenXrRuntime \<Rightarrow> Action \<Rightarrow> XrPath \<Rightarrow> error + XrBool32 \<times> XrBool32" where
  "boolean_state rt xrAction subactionPath =
     (let last = of_bool (lastBoolValue xrAction) in
      if path xrAction \<noteq> [] then
        let fullPath = getActionPath rt xrAction subactionPath;
            isBound = (buttonMap xrAction \<noteq> None \<or> floatValue xrAction \<noteq> None);
            side = getActionSide fullPath
        in if isBound \<and> side \<ge> 0 then
             let active = of_bool (at_side (m_isControllerActive rt) side) in
             if active \<noteq> 0 \<and> actionSet xrAction \<in> m_frameLatchedActionSets rt then
               case buttonMap xrAction of
                 Some buttons \<Rightarrow>
                   Inr (active,
                        read_buttons (m_cachedInputState rt) buttons side AND buttonType xrAction)
               | None \<Rightarrow>
                   (case floatValue xrAction of
                      Some floats \<Rightarrow>
                        Inr (active,
                             of_bool (float_gt (read_float (m_cachedInputState rt) floats side)
                                               float_0_99f))
                    | None \<Rightarrow> Inl NULL_POINTER_READ)
             else Inr (active, last)
           else Inr (XR_FALSE, last)
      else Inr (XR_FALSE, last))"

definition xrGetActionStateBoolean ::
  "(ieee_float \<Rightarrow> XrTime) \<Rightarrow> OpenXrRuntime \<Rightarrow> XrSession \<Rightarrow> XrActionStateGetInfo
     \<Rightarrow> XrStructureType \<Rightarrow> (error + XrActionStateBoolean) \<times> OpenXrRuntime" where
  "xrGetActionStateBoolean pvrTimeToXrTime rt session getInfo state_type =
     (if getInfo_type getInfo \<noteq> XR_TYPE_ACTION_STATE_GET_INFO
         \<or> state_type \<noteq> XR_TYPE_ACTION_STATE_BOOLEAN
      then (Inl XR_ERROR_VALIDATION_FAILURE, rt)
      else case validate_action rt session (getInfo_action getInfo) XR_ACTION_TYPE_BOOLEAN_INPUT of
             Inl e \<Rightarrow> (Inl e, rt)
           | Inr xrAction \<Rightarrow>
               (case boolean_state rt xrAction (getInfo_subactionPath getInfo) of
                  Inl e \<Rightarrow> (Inl e, rt)
                | Inr (active, current) \<Rightarrow>
                    let changed = ((current \<noteq> 0) \<noteq> lastBoolValue xrAction);
                        changeTime = (if changed
                                      then pvrTimeToXrTime (TimeInSeconds (m_cachedInputState rt))
                                      else lastBoolValueChangedTime xrAction)
                    in (Inr \<lparr>isActive = active, currentState = current,
                             changedSinceLastSync = of_bool changed, lastChangeTime = changeTime\<rparr>,
                        rt\<lparr>m_actions := (m_actions rt)(getInfo_action getInfo \<mapsto>
                              xrAction\<lparr>lastBoolValue := (current \<noteq> 0),
                                       lastBoolValueChangedTime := changeTime\<rparr>)\<rparr>)))"

text \<open>\<open>isActive\<close> and \<open>currentState\<close> of \<open>xrGetActionStateFloat\<close>.\<close>

definition float_state ::
  "OpenXrRuntime \<Rightarrow> Action \<Rightarrow> XrPath \<Rightarrow> error + XrBool32 \<times> ieee_float" where
  "float_state rt xrAction subactionPath =
     (let last = lastFloatValue xrAction in
      if path xrAction \<noteq> [] then
        let fullPath = getActionPath rt xrAction subactionPath;
            isBound = (floatValue xrAction \<noteq> None
                       \<or> (vector2fValue xrAction \<noteq> None \<and> vector2fIndex xrAction \<ge> 0)
                       \<or> buttonMap xrAction = None);
            side = getActionSide fullPath
        in if isBound \<and> side \<ge> 0 then
             let active = of_bool (at_side (m_isControllerActive rt) side) in
             if active \<noteq> 0 \<and> actionSet xrAction \<in> m_frameLatchedActionSets rt then
               case floatValue xrAction of
                 Some floats \<Rightarrow> Inr (active, read_float (m_cachedInputState rt) floats side)
               | None \<Rightarrow>
                   (case buttonMap xrAction of
                      Some buttons \<Rightarrow>
                        Inr (active,
                             if read_buttons (m_cachedInputState rt) buttons side
                                  AND buttonType xrAction \<noteq> 0
                             then Finite 1 else Finite 0)
                    | None \<Rightarrow>
                        (case vector2fValue xrAction of
                           Some vectors \<Rightarrow>
                             Inr (active,
                                  if vector2fIndex xrAction = 0
                                  then vec_x (read_vector2f (m_cachedInputState rt) vectors side)
                                  else vec_y (read_vector2f (m_cachedInputState rt) vectors side))
                         | None \<Rightarrow> Inl NULL_POINTER_READ))
             else Inr (active, last)
           else Inr (XR_FALSE, last)
      else Inr (XR_FALSE, last))"

definition xrGetActionStateFloat ::
  "(ieee_float \<Rightarrow> XrTime) \<Rightarrow> OpenXrRuntime \<Rightarrow> XrSession \<Rightarrow> XrActionStateGetInfo
     \<Rightarrow> XrStructureType \<Rightarrow> (error + XrActionStateFloat) \<times> OpenXrRuntime" where
  "xrGetActionStateFloat pvrTimeToXrTime rt session getInfo state_type =
     (if getInfo_type getInfo \<noteq> XR_TYPE_ACTION_STATE_GET_INFO
         \<or> state_type \<noteq> XR_TYPE_ACTION_STATE_FLOAT
      then (Inl XR_ERROR_VALIDATION_FAILURE, rt)
      else case validate_action rt session (getInfo_action getInfo) XR_ACTION_TYPE_FLOAT_INPUT of
             Inl e \<Rightarrow> (Inl e, rt)
           | Inr xrAction \<Rightarrow>
               (case float_state rt xrAction (getInfo_subactionPath getInfo) of
                  Inl e \<Rightarrow> (Inl e, rt)
                | Inr (active, current) \<Rightarrow>
                    let changed = float_ne current (lastFloatValue xrAction);
                        changeTime = (if changed
                                      then pvrTimeToXrTime (TimeInSeconds (m_cachedInputState rt))
                                      else lastFloatValueChangedTime xrAction)
                    in (Inr \<lparr>isActive = active, currentState = current,
                             changedSinceLastSync = of_bool changed, lastChangeTime = changeTime\<rparr>,
                        rt\<lparr>m_actions := (m_actions rt)(getInfo_action getInfo \<mapsto>
                              xrAction\<lparr>lastFloatValue := current,
                                       lastFloatValueChangedTime := changeTime\<rparr>)\<rparr>)))"

text \<open>\<open>isActive\<close> and \<open>currentState\<close> of \<open>xrGetActionStateVector2f\<close>.\<close>

definition vector2f_state ::
  "OpenXrRuntime \<Rightarrow> Action \<Rightarrow> XrPath \<Rightarrow> error + XrBool32 \<times> XrVector2f" where
  "vector2f_state rt xrAction subactionPath =
     (let last = lastVector2fValue xrAction in
      if path xrAction \<noteq> [] then
        let isBound = (vector2fValue xrAction \<noteq> None);
            fullPath = getActionPath rt xrAction subactionPath;
            side = getActionSide fullPath
        in if isBound \<and> side \<ge> 0 then
             let active = of_bool (at_side (m_isControllerActive rt) side) in
             if active \<noteq> 0 \<and> actionSet xrAction \<in> m_frameLatchedActionSets rt then
               case vector2fValue xrAction of
                 Some vectors \<Rightarrow>
                   Inr (active,
                        XrVector2f (vec_x (read_vector2f (m_cachedInputState rt) vectors side))
                                   (vec_y (read_vector2f (m_cachedInputState rt) vectors side)))
               | None \<Rightarrow> Inl NULL_POINTER_READ
             else Inr (active, last)
           else Inr (XR_FALSE, last)
      else Inr (XR_FALSE, last))"

definition xrGetActionStateVector2f ::
  "(ieee_float \<Rightarrow> XrTime) \<Rightarrow> OpenXrRuntime \<Rightarrow> XrSession \<Rightarrow> XrActionStateGetInfo
     \<Rightarrow> XrStructureType \<Rightarrow> (error + XrActionStateVector2f) \<times> OpenXrRuntime" where
  "xrGetActionStateVector2f pvrTimeToXrTime rt session getInfo state_type =
     (if getInfo_type getInfo \<noteq> XR_TYPE_ACTION_STATE_GET_INFO
         \<or> state_type \<noteq> XR_TYPE_ACTION_STATE_VECTOR2F
      then (Inl XR_ERROR_VALIDATION_FAILURE, rt)
      else case validate_action rt session (getInfo_action getInfo) XR_ACTION_TYPE_VECTOR2F_INPUT of
             Inl e \<Rightarrow> (Inl e, rt)
           | Inr xrAction \<Rightarrow>
               (case vector2f_state rt xrAction (getInfo_subactionPath getInfo) of
                  Inl e \<Rightarrow> (Inl e, rt)
                | Inr (active, current) \<Rightarrow>
                    let changed = (float_ne (vec_x current) (vec_x (lastVector2fValue xrAction))
                                   \<or> float_ne (vec_y current) (vec_y (lastVector2fValue xrAction)));
                        changeTime = (if changed
                                      then pvrTimeToXrTime (TimeInSeconds (m_cachedInputState rt))
                                      else lastVector2fValueChangedTime xrAction)
                    in (Inr \<lparr>isActive = active, currentState = current,
                             changedSinceLastSync = of_bool changed, lastChangeTime = changeTime\<rparr>,
                        rt\<lparr>m_actions := (m_actions rt)(getInfo_action getInfo \<mapsto>
                              xrAction\<lparr>lastVector2fValue := current,
                                       lastVector2fValueChangedTime := changeTime\<rparr>)\<rparr>)))"

text \<open>\<open>isActive\<close> of \<open>xrGetActionStatePose\<close>; the query writes nothing else.\<close>

definition pose_state :: "OpenXrRuntime \<Rightarrow> Action \<Rightarrow> XrPath \<Rightarrow> XrBool32" where
  "pose_state rt xrAction subactionPath =
     (if path xrAction \<noteq> [] then
        let fullPath = getActionPath rt xrAction subactionPath;
            side = getActionSide fullPath
        in if side \<ge> 0 then of_bool (at_side (m_isControllerActive rt) side) else XR_FALSE
      else XR_FALSE)"

definition xrGetActionStatePose ::
  "OpenXrRuntime \<Rightarrow> XrSession \<Rightarrow> XrActionStateGetInfo \<Rightarrow> XrStructureType
     \<Rightarrow> (error + XrActionStatePose) \<times> OpenXrRuntime" where
  "xrGetActionStatePose rt session getInfo state_type =
     (if getInfo_type getInfo \<noteq> XR_TYPE_ACTION_STATE_GET_INFO
         \<or> state_type \<noteq> XR_TYPE_ACTION_STATE_POSE
      then (Inl XR_ERROR_VALIDATION_FAILURE, rt)
      else case validate_action rt session (getInfo_action getInfo) XR_ACTION_TYPE_POSE_INPUT of
             Inl e \<Rightarrow> (Inl e, rt)
           | Inr xrAction \<Rightarrow>
               (Inr \<lparr>isActive = pose_state rt xrAction (getInfo_subactionPath getInfo)\<rparr>, rt))"

section \<open>The controller binding resolver\<close>

text \<open>
  \<open>m_controllerMappingTable\<close> is filled outside action.cpp. It maps a pair (actual
  profile, preferred profile) to the function that wires an action to the field of
  the snapshot that a bound path names; the function is a member of the runtime and
  may read its state.
\<close>

type_synonym mapping_table =
  "string \<times> string \<rightharpoonup> (OpenXrRuntime \<Rightarrow> Action \<Rightarrow> XrPath \<Rightarrow> Action)"

definition fallbacks :: "string list" where
  "fallbacks =
     [''/interaction_profiles/oculus/touch_controller'',
      ''/interaction_profiles/microsoft/motion_controller'',
      ''/interaction_profiles/khr/simple_controller'']"

text \<open>
  The search for suggested bindings: the first profile of the list that has an entry in
  \<open>m_suggestedBindings\<close>, with its bindings.
\<close>

fun find_bindings ::
  "(string \<rightharpoonup> XrActionSuggestedBinding list) \<Rightarrow> string list
     \<Rightarrow> (string \<times> XrActionSuggestedBinding list) option" where
  "find_bindings sb [] = None"
| "find_bindings sb (profile # rest) =
     (case sb profile of
        Some bindings \<Rightarrow> Some (profile, bindings)
      | None \<Rightarrow> find_bindings sb rest)"

text \<open>The loop over the bindings of the profile; an unknown action is skipped.\<close>

fun map_bindings ::
  "(OpenXrRuntime \<Rightarrow> Action \<Rightarrow> XrPath \<Rightarrow> Action) \<Rightarrow> OpenXrRuntime
     \<Rightarrow> XrActionSuggestedBinding list \<Rightarrow> OpenXrRuntime" where
  "map_bindings mapping rt [] = rt"
| "map_bindings mapping rt (b # rest) =
     (case m_actions rt (action b) of
        None \<Rightarrow> map_bindings mapping rt rest
      | Some xrAction \<Rightarrow>
          map_bindings mapping
            (rt\<lparr>m_actions := (m_actions rt)(action b \<mapsto> mapping rt xrAction (binding b))\<rparr>)
            rest)"

text \<open>
  The preferred profile, the localized name and the aim pose that the detected
  controller type selects.
\<close>

definition identify_controller :: "string \<Rightarrow> string \<times> string \<times> XrPosef" where
  "identify_controller controllerType =
     (if controllerType = ''vive_controller''
      then (''/interaction_profiles/htc/vive_controller'', ''Vive Controller'', Pose_ViveAim)
      else if controllerType = ''knuckles''
      then (''/interaction_profiles/valve/index_controller'', ''Index Controller'', Pose_IndexAim)
      else (''/interaction_profiles/khr/simple_controller'', ''Controller'', Pose_Identity))"

definition rebindControllerActions ::
  "mapping_table \<Rightarrow> OpenXrRuntime \<Rightarrow> int \<Rightarrow> (error + unit) \<times> OpenXrRuntime" where
  "rebindControllerActions table rt side =
     (case identify_controller (at_side (m_cachedControllerType rt) side) of
        (preferredInteractionProfile, localized, aimPose) \<Rightarrow>
          let rt1 = rt\<lparr>m_localizedControllerType :=
                         set_side (m_localizedControllerType rt) side localized\<rparr>
          in case find_bindings (m_suggestedBindings rt1)
                    (preferredInteractionProfile # fallbacks) of
               None \<Rightarrow>
                 (Inr (),
                  rt1\<lparr>m_currentInteractionProfile :=
                         set_side (m_currentInteractionProfile rt1) side XR_NULL_PATH,
                       m_controllerAimPose :=
                         set_side (m_controllerAimPose rt1) side Pose_Identity,
                       m_currentInteractionProfileDirty := True\<rparr>)
             | Some (actualInteractionProfile, bindings) \<Rightarrow>
                 (case table (actualInteractionProfile, preferredInteractionProfile) of
                    None \<Rightarrow> (Inl MAPPING_NOT_FOUND, rt1)
                  | Some mapping \<Rightarrow>
                      let rt2 = map_bindings mapping rt1 bindings
                      in case xrStringToPath rt2 XR_NULL_HANDLE actualInteractionProfile of
                           (Inl e, rt3) \<Rightarrow> (Inl e, rt3)
                         | (Inr p, rt3) \<Rightarrow>
                             (Inr (),
                              rt3\<lparr>m_currentInteractionProfile :=
                                     set_side (m_currentInteractionProfile rt3) side p,
                                   m_controllerAimPose :=
                                     set_side (m_controllerAimPose rt3) side aimPose,
                                   m_currentInteractionProfileDirty := True\<rparr>)))"

section \<open>xrSyncActions\<close>

text \<open>
  What the PVR session answers during one call of \<open>xrSyncActions\<close>: the input state
  (\<open>None\<close> when \<open>pvr_getInputState\<close> fails) and, per hand, the controller type string
  (\<open>None\<close> when the property has size 0, that is when no controller is detected).
\<close>

record pvr_answers =
  pvr_getInputState :: "pvrInputState option"
  pvr_ControllerType_String :: "string option \<times> string option"

record XrActiveActionSet =
  active_actionSet :: XrActionSet
  active_subactionPath :: XrPath

record XrActionsSyncInfo =
  syncInfo_type :: XrStructureType
  activeActionSets :: "XrActiveActionSet list"

text \<open>
  The first loop of \<open>xrSyncActions\<close>: each declared set is checked against the attached
  sets and inserted into \<open>m_frameLatchedActionSets\<close>.
\<close>

fun latch_each ::
  "OpenXrRuntime \<Rightarrow> XrActiveActionSet list \<Rightarrow> (error + unit) \<times> OpenXrRuntime" where
  "latch_each rt [] = (Inr (), rt)"
| "latch_each rt (a # rest) =
     (if active_actionSet a \<notin> m_activeActionSets rt
      then (Inl XR_ERROR_ACTIONSET_NOT_ATTACHED, rt)
      else latch_each
             (rt\<lparr>m_frameLatchedActionSets :=
                   insert (active_actionSet a) (m_frameLatchedActionSets rt)\<rparr>) rest)"

text \<open>The body of the loop over the two hands.\<close>

definition sync_side ::
  "mapping_table \<Rightarrow> pvr_answers \<Rightarrow> OpenXrRuntime \<Rightarrow> int \<Rightarrow> (error + unit) \<times> OpenXrRuntime" where
  "sync_side table pvr rt side =
     (let lastControllerType = at_side (m_cachedControllerType rt) side;
          detected = at_side (pvr_ControllerType_String pvr) side;
          rt1 = rt\<lparr>m_isControllerActive :=
                      set_side (m_isControllerActive rt) side (detected \<noteq> None),
                    m_cachedControllerType :=
                      set_side (m_cachedControllerType rt) side
                        (case detected of Some str \<Rightarrow> str | None \<Rightarrow> [])\<rparr>
      in if lastControllerType \<noteq> at_side (m_cachedControllerType rt1) side
         then rebindControllerActions table rt1 side
         else (Inr (), rt1))"

definition xrSyncActions ::
  "mapping_table \<Rightarrow> pvr_answers \<Rightarrow> OpenXrRuntime \<Rightarrow> XrSession \<Rightarrow> XrActionsSyncInfo
     \<Rightarrow> (error + unit) \<times> OpenXrRuntime" where
  "xrSyncActions table pvr rt session syncInfo =
     (if syncInfo_type syncInfo \<noteq> XR_TYPE_ACTIONS_SYNC_INFO
      then (Inl XR_ERROR_VALIDATION_FAILURE, rt)
      else if \<not> m_sessionCreated rt \<or> session \<noteq> 1 then (Inl XR_ERROR_HANDLE_INVALID, rt)
      else case latch_each rt (activeActionSets syncInfo) of
             (Inl e, rt1) \<Rightarrow> (Inl e, rt1)
           | (Inr _, rt1) \<Rightarrow>
               (case pvr_getInputState pvr of
                  None \<Rightarrow> (Inl PVR_COMMAND_FAILED, rt1)
                | Some inputState \<Rightarrow>
                    (case sync_side table pvr (rt1\<lparr>m_cachedInputState := inputState\<rparr>) 0 of
                       (Inl e, rt2) \<Rightarrow> (Inl e, rt2)
                     | (Inr _, rt2) \<Rightarrow> sync_side table pvr rt2 1)))"

section \<open>Bound sources and localized names\<close>

record XrBoundSourcesForActionEnumerateInfo =
  enumerateInfo_type :: XrStructureType
  enumerateInfo_action :: XrAction

record sources_output =
  sourceCountOutput :: "32 word"
  sources_written :: "XrPath list"

definition xrEnumerateBoundSourcesForAction ::
  "OpenXrRuntime \<Rightarrow> XrSession \<Rightarrow> XrBoundSourcesForActionEnumerateInfo \<Rightarrow> 32 word \<Rightarrow> bool
     \<Rightarrow> (error + sources_output) \<times> OpenXrRuntime" where
  "xrEnumerateBoundSourcesForAction rt session enumerateInfo sourceCapacityInput sources =
     (if enumerateInfo_type enumerateInfo \<noteq> XR_TYPE_BOUND_SOURCES_FOR_ACTION_ENUMERATE_INFO
      then (Inl XR_ERROR_VALIDATION_FAILURE, rt)
      else if \<not> m_sessionCreated rt \<or> session \<noteq> 1 then (Inl XR_ERROR_HANDLE_INVALID, rt)
      else case m_actions rt (enumerateInfo_action enumerateInfo) of
             None \<Rightarrow> (Inl XR_ERROR_HANDLE_INVALID, rt)
           | Some xrAction \<Rightarrow>
               let n = (if path xrAction = [] then 0 else 1) in
               if sourceCapacityInput \<noteq> 0 \<and> sourceCapacityInput < n
               then (Inl XR_ERROR_SIZE_INSUFFICIENT, rt)
               else if sourceCapacityInput \<noteq> 0 \<and> sources \<and> path xrAction \<noteq> []
               then case xrStringToPath rt XR_NULL_HANDLE (path xrAction) of
                      (Inl e, rt1) \<Rightarrow> (Inl e, rt1)
                    | (Inr p, rt1) \<Rightarrow>
                        (Inr \<lparr>sourceCountOutput = n, sources_written = [p]\<rparr>, rt1)
               else (Inr \<lparr>sourceCountOutput = n, sources_written = []\<rparr>, rt))"

record XrInputSourceLocalizedNameGetInfo =
  nameInfo_type :: XrStructureType
  sourcePath :: XrPath
  whichComponents :: "64 word"

definition XR_INPUT_SOURCE_LOCALIZED_NAME_USER_PATH_BIT :: "64 word" where
  "XR_INPUT_SOURCE_LOCALIZED_NAME_USER_PATH_BIT = 1"

definition XR_INPUT_SOURCE_LOCALIZED_NAME_INTERACTION_PROFILE_BIT :: "64 word" where
  "XR_INPUT_SOURCE_LOCALIZED_NAME_INTERACTION_PROFILE_BIT = 2"

definition XR_INPUT_SOURCE_LOCALIZED_NAME_COMPONENT_BIT :: "64 word" where
  "XR_INPUT_SOURCE_LOCALIZED_NAME_COMPONENT_BIT = 4"

text \<open>
  The three functions that name the component of a source path, one per interaction
  profile, are defined outside action.cpp.
\<close>

record source_names =
  getViveControllerLocalizedSourceName :: "string \<Rightarrow> string"
  getIndexControllerLocalizedSourceName :: "string \<Rightarrow> string"
  getSimpleControllerLocalizedSourceName :: "string \<Rightarrow> string"

definition localized_name ::
  "source_names \<Rightarrow> OpenXrRuntime \<Rightarrow> XrInputSourceLocalizedNameGetInfo \<Rightarrow> string" where
  "localized_name names rt getInfo =
     (let p = getXrPath rt (sourcePath getInfo);
          side = getActionSide p
      in if side \<ge> 0 then
           (if whichComponents getInfo AND XR_INPUT_SOURCE_LOCALIZED_NAME_USER_PATH_BIT \<noteq> 0
            then (if side = 0 then ''Left Hand '' else ''Right Hand '') else [])
           @ (if whichComponents getInfo
                   AND XR_INPUT_SOURCE_LOCALIZED_NAME_INTERACTION_PROFILE_BIT \<noteq> 0
              then at_side (m_localizedControllerType rt) side @ '' '' else [])
           @ (if whichComponents getInfo AND XR_INPUT_SOURCE_LOCALIZED_NAME_COMPONENT_BIT \<noteq> 0
              then let interactionProfile =
                         getXrPath rt (at_side (m_currentInteractionProfile rt) side)
                   in if interactionProfile = ''/interaction_profiles/htc/vive_controller''
                      then getViveControllerLocalizedSourceName names p
                      else if interactionProfile = ''/interaction_profiles/valve/index_controller''
                      then getIndexControllerLocalizedSourceName names p
                      else if interactionProfile = ''/interaction_profiles/khr/simple_controller''
                      then getSimpleControllerLocalizedSourceName names p
                      else []
              else [])
         else [])"

definition xrGetInputSourceLocalizedName ::
  "source_names \<Rightarrow> OpenXrRuntime \<Rightarrow> XrSession \<Rightarrow> XrInputSourceLocalizedNameGetInfo
     \<Rightarrow> 32 word \<Rightarrow> bool \<Rightarrow> error + string_output" where
  "xrGetInputSourceLocalizedName names rt session getInfo bufferCapacityInput buffer =
     (if nameInfo_type getInfo \<noteq> XR_TYPE_INPUT_SOURCE_LOCALIZED_NAME_GET_INFO
      then Inl XR_ERROR_VALIDATION_FAILURE
      else if \<not> m_sessionCreated rt \<or> session \<noteq> 1 then Inl XR_ERROR_HANDLE_INVALID
      else write_string bufferCapacityInput buffer (localized_name names rt getInfo))"

section \<open>Haptics\<close>

record XrHapticActionInfo =
  hapticActionInfo_type :: XrStructureType
  hapticActionInfo_action :: XrAction
  hapticActionInfo_subactionPath :: XrPath

text \<open>
  The chain of structs that \<open>hapticFeedback\<close> heads, in the order of the \<open>next\<close>
  pointers. An entry is an \<open>XrHapticVibration\<close> (type \<open>XR_TYPE_HAPTIC_VIBRATION\<close>) or a
  struct of another type.
\<close>

datatype XrHapticBaseHeader =
    XrHapticVibration (duration: "64 word") (frequency: ieee_float) (amplitude: ieee_float)
  | XrOtherStruct

datatype pvrTrackedDevice = pvrTrackedDevice_LeftController | pvrTrackedDevice_RightController

text \<open>
  A call of \<open>pvr_triggerHapticPulse\<close> is recorded with its device and intensity. Whether
  the command succeeds is the answer \<open>pulse_ok\<close> of the hardware.
\<close>

type_synonym pulse = "pvrTrackedDevice \<times> ieee_float"

text \<open>The \<open>while (entry)\<close> loop: the first vibration entry decides and ends the loop.\<close>

fun haptic_entries ::
  "(pulse \<Rightarrow> bool) \<Rightarrow> int \<Rightarrow> XrHapticBaseHeader list \<Rightarrow> (error + unit) \<times> pulse list" where
  "haptic_entries pulse_ok side [] = (Inr (), [])"
| "haptic_entries pulse_ok side (XrHapticVibration d f a # rest) =
     (if float_gt a (Finite 0) then
        let p = (if side = 0 then pvrTrackedDevice_LeftController
                 else pvrTrackedDevice_RightController, a)
        in if pulse_ok p then (Inr (), [p]) else (Inl PVR_COMMAND_FAILED, [p])
      else (Inr (), []))"
| "haptic_entries pulse_ok side (XrOtherStruct # rest) = haptic_entries pulse_ok side rest"

definition xrApplyHapticFeedback ::
  "(pulse \<Rightarrow> bool) \<Rightarrow> OpenXrRuntime \<Rightarrow> XrSession \<Rightarrow> XrHapticActionInfo
     \<Rightarrow> XrHapticBaseHeader list \<Rightarrow> (error + unit) \<times> pulse list" where
  "xrApplyHapticFeedback pulse_ok rt session hapticActionInfo hapticFeedback =
     (if hapticActionInfo_type hapticActionInfo \<noteq> XR_TYPE_HAPTIC_ACTION_INFO
      then (Inl XR_ERROR_VALIDATION_FAILURE, [])
      else case validate_action rt session (hapticActionInfo_action hapticActionInfo)
                  XR_ACTION_TYPE_VIBRATION_OUTPUT of
             Inl e \<Rightarrow> (Inl e, [])
           | Inr xrAction \<Rightarrow>
               if path xrAction \<noteq> [] then
                 let fullPath = getActionPath rt xrAction
                                  (hapticActionInfo_subactionPath hapticActionInfo);
                     isOutput = endsWith fullPath ''/output/haptic'';
                     side = getActionSide fullPath
                 in if isOutput \<and> side \<ge> 0
                    then haptic_entries pulse_ok side hapticFeedback
                    else (Inr (), [])
               else (Inr (), []))"

definition xrStopHapticFeedback ::
  "OpenXrRuntime \<Rightarrow> XrSession \<Rightarrow> XrHapticActionInfo \<Rightarrow> error + unit" where
  "xrStopHapticFeedback rt session hapticActionInfo =
     (if hapticActionInfo_type hapticActionInfo \<noteq> XR_TYPE_HAPTIC_ACTION_INFO
      then Inl XR_ERROR_VALIDATION_FAILURE
      else case validate_action rt session (hapticActionInfo_action hapticActionInfo)
                  XR_ACTION_TYPE_VIBRATION_OUTPUT of
             Inl e \<Rightarrow> Inl e
           | Inr xrAction \<Rightarrow> Inr ())"

section \<open>Sequences of calls\<close>

text \<open>
  A call of one of the entry points of action.cpp with its arguments. What the
  collaborators answer during the call (the PVR session in \<open>xrSyncActions\<close>, the
  allocator in \<open>xrCreateAction\<close>) is an argument of the call; what is fixed for the
  lifetime of the runtime is in the environment.
\<close>

datatype call =
    Call_xrStringToPath XrInstance string
  | Call_xrPathToString XrInstance XrPath "32 word" bool
  | Call_xrCreateActionSet XrInstance XrStructureType
  | Call_xrDestroyActionSet XrActionSet
  | Call_xrCreateAction XrActionSet XrActionCreateInfo XrAction
  | Call_xrDestroyAction XrAction
  | Call_xrSuggestInteractionProfileBindings XrInstance XrInteractionProfileSuggestedBinding
  | Call_xrAttachSessionActionSets XrSession XrSessionActionSetsAttachInfo
  | Call_xrGetCurrentInteractionProfile XrSession XrPath XrStructureType
  | Call_xrGetActionStateBoolean XrSession XrActionStateGetInfo XrStructureType
  | Call_xrGetActionStateFloat XrSession XrActionStateGetInfo XrStructureType
  | Call_xrGetActionStateVector2f XrSession XrActionStateGetInfo XrStructureType
  | Call_xrGetActionStatePose XrSession XrActionStateGetInfo XrStructureType
  | Call_xrSyncActions pvr_answers XrSession XrActionsSyncInfo
  | Call_xrEnumerateBoundSourcesForAction XrSession XrBoundSourcesForActionEnumerateInfo
      "32 word" bool
  | Call_xrGetInputSourceLocalizedName XrSession XrInputSourceLocalizedNameGetInfo
      "32 word" bool
  | Call_xrApplyHapticFeedback XrSession XrHapticActionInfo "XrHapticBaseHeader list"
  | Call_xrStopHapticFeedback XrSession XrHapticActionInfo

record environment =
  pvrTimeToXrTime :: "ieee_float \<Rightarrow> XrTime"
  m_controllerMappingTable :: mapping_table

text \<open>
  The runtime after a call. The entry points that only read the runtime (or only
  drive the hardware) leave it as it is.
\<close>

fun exec :: "environment \<Rightarrow> OpenXrRuntime \<Rightarrow> call \<Rightarrow> OpenXrRuntime" where
  "exec env rt (Call_xrStringToPath instance str) = snd (xrStringToPath rt instance str)"
| "exec env rt (Call_xrPathToString instance p capacity buffer) = rt"
| "exec env rt (Call_xrCreateActionSet instance ty) = snd (xrCreateActionSet rt instance ty)"
| "exec env rt (Call_xrDestroyActionSet s) = snd (xrDestroyActionSet rt s)"
| "exec env rt (Call_xrCreateAction s createInfo address) =
     snd (xrCreateAction rt s createInfo address)"
| "exec env rt (Call_xrDestroyAction a) = snd (xrDestroyAction rt a)"
| "exec env rt (Call_xrSuggestInteractionProfileBindings instance sb) =
     snd (xrSuggestInteractionProfileBindings rt instance sb)"
| "exec env rt (Call_xrAttachSessionActionSets session attachInfo) =
     snd (xrAttachSessionActionSets rt session attachInfo)"
| "exec env rt (Call_xrGetCurrentInteractionProfile session p ty) = rt"
| "exec env rt (Call_xrGetActionStateBoolean session getInfo ty) =
     snd (xrGetActionStateBoolean (pvrTimeToXrTime env) rt session getInfo ty)"
| "exec env rt (Call_xrGetActionStateFloat session getInfo ty) =
     snd (xrGetActionStateFloat (pvrTimeToXrTime env) rt session getInfo ty)"
| "exec env rt (Call_xrGetActionStateVector2f session getInfo ty) =
     snd (xrGetActionStateVector2f (pvrTimeToXrTime env) rt session getInfo ty)"
| "exec env rt (Call_xrGetActionStatePose session getInfo ty) =
     snd (xrGetActionStatePose rt session getInfo ty)"
| "exec env rt (Call_xrSyncActions pvr session syncInfo) =
     snd (xrSyncActions (m_controllerMappingTable env) pvr rt session syncInfo)"
| "exec env rt (Call_xrEnumerateBoundSourcesForAction session enumerateInfo capacity sources) =
     snd (xrEnumerateBoundSourcesForAction rt session enumerateInfo capacity sources)"
| "exec env rt (Call_xrGetInputSourceLocalizedName session getInfo capacity buffer) = rt"
| "exec env rt (Call_xrApplyHapticFeedback session hapticActionInfo hapticFeedback) = rt"
| "exec env rt (Call_xrStopHapticFeedback session hapticActionInfo) = rt"

fun exec_all :: "environment \<Rightarrow> OpenXrRuntime \<Rightarrow> call list \<Rightarrow> OpenXrRuntime" where
  "exec_all env rt [] = rt"
| "exec_all env rt (c # cs) = exec_all env (exec env rt c) cs"

section \<open>Hand resolution\<close>

text \<open>
  The full path of an action, for a sub-action path, resolves to a hand, and the
  controller of that hand is detected present.
\<close>

definition resolves_to_present_hand :: "OpenXrRuntime \<Rightarrow> Action \<Rightarrow> XrPath \<Rightarrow> bool" where
  "resolves_to_present_hand rt xrAction subactionPath =
     (let side = getActionSide (getActionPath rt xrAction subactionPath)
      in side \<ge> 0 \<and> at_side (m_isControllerActive rt) side)"

section \<open>Concrete runtimes and requests\<close>

text \<open>
  The runtime after the instance and the session are created, before any call of
  action.cpp: nothing interned, no set, no action, no controller detected.
\<close>

definition no_input :: pvrInputState where
  "no_input =
     \<lparr>TimeInSeconds = Finite 0, HandButtons = (0, 0), HandTouches = (0, 0),
      Trigger = (Finite 0, Finite 0), Grip = (Finite 0, Finite 0),
      GripForce = (Finite 0, Finite 0),
      JoyStick = (XrVector2f (Finite 0) (Finite 0), XrVector2f (Finite 0) (Finite 0)),
      TouchPad = (XrVector2f (Finite 0) (Finite 0), XrVector2f (Finite 0) (Finite 0)),
      TouchPadForce = (Finite 0, Finite 0), fingerIndex = (Finite 0, Finite 0),
      fingerMiddle = (Finite 0, Finite 0), fingerRing = (Finite 0, Finite 0),
      fingerPinky = (Finite 0, Finite 0)\<rparr>"

definition initial_runtime :: OpenXrRuntime where
  "initial_runtime =
     \<lparr>m_instanceCreated = True, m_sessionCreated = True, m_strings = [], m_stringIndex = 0,
      m_actionSets = {}, m_actionSetIndex = 0, m_actions = Map.empty,
      m_suggestedBindings = Map.empty, m_activeActionSets = {},
      m_frameLatchedActionSets = {}, m_cachedInputState = no_input,
      m_cachedControllerType = ([], []), m_isControllerActive = (False, False),
      m_localizedControllerType = ([], []), m_currentInteractionProfile = (0, 0),
      m_controllerAimPose = (Pose_Identity, Pose_Identity),
      m_currentInteractionProfileDirty = False\<rparr>"

text \<open>Two interned paths, and distinct profiles for the two hands.\<close>

definition gamepad_runtime :: OpenXrRuntime where
  "gamepad_runtime =
     initial_runtime\<lparr>m_strings := [(1, ''/user/gamepad''), (2, ''/user'')], m_stringIndex := 2,
                      m_currentInteractionProfile := (7, 8)\<rparr>"

text \<open>One action set created, and a request to attach it together with an unknown handle.\<close>

definition one_set_runtime :: OpenXrRuntime where
  "one_set_runtime = initial_runtime\<lparr>m_actionSets := {1}, m_actionSetIndex := 1\<rparr>"

definition attach_known_then_unknown :: XrSessionActionSetsAttachInfo where
  "attach_known_then_unknown =
     \<lparr>attachInfo_type = XR_TYPE_SESSION_ACTION_SETS_ATTACH_INFO, actionSets = [1, 2]\<rparr>"

text \<open>
  A session in which two sets are created and attached and a first synchronisation
  declares the first set; then a synchronisation that declares only the second. The
  PVR session reads the input state and detects no controller; the runtime has no
  mapping function.
\<close>

definition no_controllers :: pvr_answers where
  "no_controllers =
     \<lparr>pvr_getInputState = Some no_input, pvr_ControllerType_String = (None, None)\<rparr>"

definition no_mappings :: mapping_table where
  "no_mappings = Map.empty"

definition simple_environment :: environment where
  "simple_environment =
     \<lparr>pvrTimeToXrTime = (\<lambda>t. 0), m_controllerMappingTable = no_mappings\<rparr>"

definition attach_both_sets :: XrSessionActionSetsAttachInfo where
  "attach_both_sets =
     \<lparr>attachInfo_type = XR_TYPE_SESSION_ACTION_SETS_ATTACH_INFO, actionSets = [1, 2]\<rparr>"

definition sync_first_set :: XrActionsSyncInfo where
  "sync_first_set =
     \<lparr>syncInfo_type = XR_TYPE_ACTIONS_SYNC_INFO,
      activeActionSets = [\<lparr>active_actionSet = 1, active_subactionPath = 0\<rparr>]\<rparr>"

definition calls_latching_first_set :: "call list" where
  "calls_latching_first_set =
     [Call_xrCreateActionSet 1 XR_TYPE_ACTION_SET_CREATE_INFO,
      Call_xrCreateActionSet 1 XR_TYPE_ACTION_SET_CREATE_INFO,
      Call_xrAttachSessionActionSets 1 attach_both_sets,
      Call_xrSyncActions no_controllers 1 sync_first_set]"

definition latched_runtime :: OpenXrRuntime where
  "latched_runtime = exec_all simple_environment initial_runtime calls_latching_first_set"

definition sync_second_set :: XrActionsSyncInfo where
  "sync_second_set =
     \<lparr>syncInfo_type = XR_TYPE_ACTIONS_SYNC_INFO,
      activeActionSets = [\<lparr>active_actionSet = 2, active_subactionPath = 0\<rparr>]\<rparr>"

text \<open>Requests to attach no set, to attach set 1, and to suggest no binding.\<close>

definition attach_nothing :: XrSessionActionSetsAttachInfo where
  "attach_nothing =
     \<lparr>attachInfo_type = XR_TYPE_SESSION_ACTION_SETS_ATTACH_INFO, actionSets = []\<rparr>"

definition attach_first_set :: XrSessionActionSetsAttachInfo where
  "attach_first_set =
     \<lparr>attachInfo_type = XR_TYPE_SESSION_ACTION_SETS_ATTACH_INFO, actionSets = [1]\<rparr>"

definition suggest_nothing :: XrInteractionProfileSuggestedBinding where
  "suggest_nothing =
     \<lparr>suggestedBindings_type = XR_TYPE_INTERACTION_PROFILE_SUGGESTED_BINDING,
      interactionProfile = 0, suggestedBindings = []\<rparr>"

text \<open>Calls made after an attachment: a set is destroyed, a path is interned, a synchronisation runs.\<close>

definition calls_after_attach :: "call list" where
  "calls_after_attach =
     [Call_xrDestroyActionSet 1,
      Call_xrStringToPath 1 ''/user/hand/left'',
      Call_xrSyncActions no_controllers 1 sync_second_set]"

text \<open>
  A session in use. Three paths are interned. Set 1 is attached and latched. Five
  actions of set 1 are bound to the left hand, one of each type: a click wired to
  bit 4 of the buttons, the trigger, the thumbstick, the grip pose and the haptic
  output. The left controller is detected, the right one is not. In the snapshot,
  taken at 10 seconds, bits 1 and 4 of the left buttons are set and the left trigger
  is at one half.
\<close>

definition pressed_input :: pvrInputState where
  "pressed_input =
     no_input\<lparr>TimeInSeconds := Finite 10, HandButtons := (5, 0),
               Trigger := (Finite (1 / 2), Finite 0),
               JoyStick := (XrVector2f (Finite (1 / 4)) (Finite (-1)),
                            XrVector2f (Finite 0) (Finite 0))\<rparr>"

definition select_action :: Action where
  "select_action =
     new_Action\<lparr>type := XR_ACTION_TYPE_BOOLEAN_INPUT, actionSet := 1,
                 path := ''/user/hand/left/input/select/click'',
                 buttonMap := Some In_HandButtons, buttonType := 4\<rparr>"

definition trigger_action :: Action where
  "trigger_action =
     new_Action\<lparr>type := XR_ACTION_TYPE_FLOAT_INPUT, actionSet := 1,
                 path := ''/user/hand/left/input/trigger/value'',
                 floatValue := Some In_Trigger\<rparr>"

definition thumbstick_action :: Action where
  "thumbstick_action =
     new_Action\<lparr>type := XR_ACTION_TYPE_VECTOR2F_INPUT, actionSet := 1,
                 path := ''/user/hand/left/input/thumbstick'',
                 vector2fValue := Some In_JoyStick\<rparr>"

definition grip_action :: Action where
  "grip_action =
     new_Action\<lparr>type := XR_ACTION_TYPE_POSE_INPUT, actionSet := 1,
                 path := ''/user/hand/left/input/grip/pose''\<rparr>"

definition haptic_action :: Action where
  "haptic_action =
     new_Action\<lparr>type := XR_ACTION_TYPE_VIBRATION_OUTPUT, actionSet := 1,
                 path := ''/user/hand/left/output/haptic''\<rparr>"

definition session_runtime :: OpenXrRuntime where
  "session_runtime =
     initial_runtime
       \<lparr>m_strings := [(1, ''/user/hand/left''), (2, ''/user/hand/right''), (3, ''/user/gamepad'')],
        m_stringIndex := 3, m_actionSets := {1}, m_actionSetIndex := 1,
        m_actions := [100 \<mapsto> select_action, 101 \<mapsto> trigger_action, 102 \<mapsto> thumbstick_action,
                      103 \<mapsto> grip_action, 104 \<mapsto> haptic_action],
        m_activeActionSets := {1}, m_frameLatchedActionSets := {1},
        m_cachedInputState := pressed_input,
        m_cachedControllerType := (''knuckles'', []),
        m_isControllerActive := (True, False)\<rparr>"

definition get_select :: XrActionStateGetInfo where
  "get_select =
     \<lparr>getInfo_type = XR_TYPE_ACTION_STATE_GET_INFO, getInfo_action = 100,
      getInfo_subactionPath = 0\<rparr>"

definition get_trigger :: XrActionStateGetInfo where
  "get_trigger =
     \<lparr>getInfo_type = XR_TYPE_ACTION_STATE_GET_INFO, getInfo_action = 101,
      getInfo_subactionPath = 0\<rparr>"

definition get_thumbstick :: XrActionStateGetInfo where
  "get_thumbstick =
     \<lparr>getInfo_type = XR_TYPE_ACTION_STATE_GET_INFO, getInfo_action = 102,
      getInfo_subactionPath = 0\<rparr>"

definition get_grip :: XrActionStateGetInfo where
  "get_grip =
     \<lparr>getInfo_type = XR_TYPE_ACTION_STATE_GET_INFO, getInfo_action = 103,
      getInfo_subactionPath = 0\<rparr>"

definition use_haptic :: XrHapticActionInfo where
  "use_haptic =
     \<lparr>hapticActionInfo_type = XR_TYPE_HAPTIC_ACTION_INFO, hapticActionInfo_action = 104,
      hapticActionInfo_subactionPath = 0\<rparr>"

text \<open>A conversion of seconds to nanoseconds, standing for \<open>pvrTimeToXrTime\<close>.\<close>

definition nanoseconds :: "ieee_float \<Rightarrow> XrTime" where
  "nanoseconds t = (case t of Finite r \<Rightarrow> word_of_int \<lfloor>r * 1000000000\<rfloor> | _ \<Rightarrow> 0)"

text \<open>A haptic actuator whose pulse command always succeeds.\<close>

definition pulse_succeeds :: "pulse \<Rightarrow> bool" where
  "pulse_succeeds p = True"

text \<open>
  The same session after a synchronisation that declared no set, and the same session
  with a left trigger that reads NaN.
\<close>

definition unlatched_runtime :: OpenXrRuntime where
  "unlatched_runtime = session_runtime\<lparr>m_frameLatchedActionSets := {}\<rparr>"

definition nan_runtime :: OpenXrRuntime where
  "nan_runtime =
     session_runtime\<lparr>m_cachedInputState := pressed_input\<lparr>Trigger := (NaN, Finite 0)\<rparr>\<rparr>"

text \<open>
  A session from its start. The application interns the simple-controller profile and
  a click path, creates a set and a boolean action, suggests the click for the simple
  profile, attaches the set and synchronises while an Index controller (type
  \<open>knuckles\<close>) is detected on the left. The mapping table wires a click to bit 1 of
  the buttons when the preferred profile is the Index controller and to bit 2 when it
  is the simple controller.
\<close>

definition simple_controller :: string where
  "simple_controller = ''/interaction_profiles/khr/simple_controller''"

definition touch_controller :: string where
  "touch_controller = ''/interaction_profiles/oculus/touch_controller''"

definition motion_controller :: string where
  "motion_controller = ''/interaction_profiles/microsoft/motion_controller''"

definition index_controller :: string where
  "index_controller = ''/interaction_profiles/valve/index_controller''"

definition wire_click :: "32 word \<Rightarrow> OpenXrRuntime \<Rightarrow> Action \<Rightarrow> XrPath \<Rightarrow> Action" where
  "wire_click button rt xrAction p =
     xrAction\<lparr>path := getXrPath rt p, buttonMap := Some In_HandButtons, buttonType := button\<rparr>"

definition click_mappings :: mapping_table where
  "click_mappings key =
     (if key = (simple_controller, index_controller) then Some (wire_click 1)
      else if key = (simple_controller, simple_controller) then Some (wire_click 2)
      else None)"

definition click_environment :: environment where
  "click_environment =
     \<lparr>pvrTimeToXrTime = nanoseconds, m_controllerMappingTable = click_mappings\<rparr>"

definition knuckles_on_the_left :: pvr_answers where
  "knuckles_on_the_left =
     \<lparr>pvr_getInputState = Some pressed_input,
      pvr_ControllerType_String = (Some ''knuckles'', None)\<rparr>"

definition calls_with_knuckles :: "call list" where
  "calls_with_knuckles =
     [Call_xrStringToPath 1 simple_controller,
      Call_xrStringToPath 1 ''/user/hand/left/input/select/click'',
      Call_xrCreateActionSet 1 XR_TYPE_ACTION_SET_CREATE_INFO,
      Call_xrCreateAction 1
        \<lparr>createInfo_type = XR_TYPE_ACTION_CREATE_INFO,
         actionType = XR_ACTION_TYPE_BOOLEAN_INPUT, subactionPaths = []\<rparr> 100,
      Call_xrSuggestInteractionProfileBindings 1
        \<lparr>suggestedBindings_type = XR_TYPE_INTERACTION_PROFILE_SUGGESTED_BINDING,
         interactionProfile = 1, suggestedBindings = [\<lparr>action = 100, binding = 2\<rparr>]\<rparr>,
      Call_xrAttachSessionActionSets 1 attach_first_set,
      Call_xrSyncActions knuckles_on_the_left 1 sync_first_set]"

definition knuckles_runtime :: OpenXrRuntime where
  "knuckles_runtime = exec_all click_environment initial_runtime calls_with_knuckles"

text \<open>
  The same session when its synchronisation declares no set: the set of the click is
  attached and has never been latched.
\<close>

definition sync_no_set :: XrActionsSyncInfo where
  "sync_no_set = \<lparr>syncInfo_type = XR_TYPE_ACTIONS_SYNC_INFO, activeActionSets = []\<rparr>"

definition calls_without_latch :: "call list" where
  "calls_without_latch =
     butlast calls_with_knuckles @ [Call_xrSyncActions knuckles_on_the_left 1 sync_no_set]"

definition never_latched_runtime :: OpenXrRuntime where
  "never_latched_runtime = exec_all click_environment initial_runtime calls_without_latch"

text \<open>
  The runtime as \<open>xrSyncActions\<close> hands it to the resolver for the left hand, once the
  Index controller is no longer detected.
\<close>

definition controller_lost_runtime :: OpenXrRuntime where
  "controller_lost_runtime =
     knuckles_runtime\<lparr>m_cachedInputState := no_input,
                       m_isControllerActive := (False, False),
                       m_cachedControllerType := ([], [])\<rparr>"

text \<open>
  The session with four boolean actions on the left hand: the click on bit 4 of the
  buttons, which is set; a menu button on bit 2, which is not; a squeeze bound to the
  grip scalar, which reads 1; a pull bound to the trigger, which reads one half. And
  the same session with a trigger that reads exactly \<open>0.99f\<close>.
\<close>

definition menu_action :: Action where
  "menu_action =
     new_Action\<lparr>type := XR_ACTION_TYPE_BOOLEAN_INPUT, actionSet := 1,
                 path := ''/user/hand/left/input/menu/click'',
                 buttonMap := Some In_HandButtons, buttonType := 2\<rparr>"

definition squeeze_action :: Action where
  "squeeze_action =
     new_Action\<lparr>type := XR_ACTION_TYPE_BOOLEAN_INPUT, actionSet := 1,
                 path := ''/user/hand/left/input/squeeze/click'',
                 floatValue := Some In_Grip\<rparr>"

definition pull_action :: Action where
  "pull_action =
     new_Action\<lparr>type := XR_ACTION_TYPE_BOOLEAN_INPUT, actionSet := 1,
                 path := ''/user/hand/left/input/trigger/click'',
                 floatValue := Some In_Trigger\<rparr>"

definition boolean_runtime :: OpenXrRuntime where
  "boolean_runtime =
     session_runtime
       \<lparr>m_actions := [100 \<mapsto> select_action, 105 \<mapsto> menu_action, 106 \<mapsto> squeeze_action,
                      107 \<mapsto> pull_action],
        m_cachedInputState := pressed_input\<lparr>Grip := (Finite 1, Finite 0)\<rparr>\<rparr>"

definition threshold_runtime :: OpenXrRuntime where
  "threshold_runtime =
     boolean_runtime\<lparr>m_cachedInputState := pressed_input\<lparr>Trigger := (float_0_99f, Finite 0)\<rparr>\<rparr>"

definition get_menu :: XrActionStateGetInfo where
  "get_menu =
     \<lparr>getInfo_type = XR_TYPE_ACTION_STATE_GET_INFO, getInfo_action = 105,
      getInfo_subactionPath = 0\<rparr>"

definition get_squeeze :: XrActionStateGetInfo where
  "get_squeeze =
     \<lparr>getInfo_type = XR_TYPE_ACTION_STATE_GET_INFO, getInfo_action = 106,
      getInfo_subactionPath = 0\<rparr>"

definition get_pull :: XrActionStateGetInfo where
  "get_pull =
     \<lparr>getInfo_type = XR_TYPE_ACTION_STATE_GET_INFO, getInfo_action = 107,
      getInfo_subactionPath = 0\<rparr>"



section \<open>The two-call string convention\<close>

lemma write_string_size_query:
  "write_string 0 buffer str
     = Inr \<lparr>bufferCountOutput = word_of_nat (length str) + 1, buffer_text = None\<rparr>"
  by (simp add: write_string_def)

lemma write_string_fits:
  "length str < unat capacity \<Longrightarrow>
   write_string capacity True str
     = Inr \<lparr>bufferCountOutput = word_of_nat (length str) + 1, buffer_text = Some str\<rparr>"
  by (auto simp add: write_string_def sprintf_s_def Let_def)

lemma write_string_too_small:
  "capacity \<noteq> 0 \<Longrightarrow> unat capacity < length str \<Longrightarrow>
   write_string capacity buffer str = Inl XR_ERROR_SIZE_INSUFFICIENT"
  by (simp add: write_string_def)

text \<open>
  C4. \<open>xrPathToString\<close> on the interned path \<open>/user\<close> (5 characters, so 6 bytes are
  required) with a capacity of 5: the size check compares the capacity with the
  length, not with the length plus one, so the call does not fail with
  \<open>XR_ERROR_SIZE_INSUFFICIENT\<close>. With a buffer it reaches \<open>sprintf_s\<close>, which cannot
  fit the terminator; without one it succeeds and reports 6.
\<close>

theorem path_to_string_capacity_equal_length:
  "xrPathToString gamepad_runtime 1 2 5 True = Inl SPRINTF_S_BUFFER_TOO_SMALL
   \<and> xrPathToString gamepad_runtime 1 2 5 False
       = Inr \<lparr>bufferCountOutput = 6, buffer_text = None\<rparr>"
  by (simp add: xrPathToString_def write_string_def sprintf_s_def gamepad_runtime_def
      initial_runtime_def XR_NULL_PATH_def)

theorem path_to_string_capacity_equal_length_witness:
  "xrPathToString gamepad_runtime 1 2 5 True \<noteq> Inl XR_ERROR_SIZE_INSUFFICIENT
   \<and> xrPathToString gamepad_runtime 1 2 5 False \<noteq> Inl XR_ERROR_SIZE_INSUFFICIENT"
  using path_to_string_capacity_equal_length by simp

section \<open>The current interaction profile\<close>

text \<open>
  C10. On the valid session, with a well-formed result struct,
  \<open>xrGetCurrentInteractionProfile\<close> with the null top-level path succeeds with the
  profile of hand 0 (left), and with a non-null path that resolves to no hand it
  succeeds with the null path.
\<close>

theorem current_profile_default_and_unsupported:
  assumes "m_sessionCreated rt"
    and "p \<noteq> XR_NULL_PATH"
    and "getActionSide (getXrPath rt p) < 0"
  shows "xrGetCurrentInteractionProfile rt 1 XR_NULL_PATH XR_TYPE_INTERACTION_PROFILE_STATE
           = Inr (at_side (m_currentInteractionProfile rt) 0)
         \<and> xrGetCurrentInteractionProfile rt 1 p XR_TYPE_INTERACTION_PROFILE_STATE
           = Inr XR_NULL_PATH"
  using assms by (simp add: xrGetCurrentInteractionProfile_def)

theorem current_profile_witness:
  "xrGetCurrentInteractionProfile gamepad_runtime 1 XR_NULL_PATH XR_TYPE_INTERACTION_PROFILE_STATE
     = Inr 7
   \<and> xrGetCurrentInteractionProfile gamepad_runtime 1 1 XR_TYPE_INTERACTION_PROFILE_STATE
     = Inr XR_NULL_PATH"
proof -
  have a: "m_sessionCreated gamepad_runtime"
    by (simp add: gamepad_runtime_def initial_runtime_def)
  have b: "(1 :: XrPath) \<noteq> XR_NULL_PATH"
    by (simp add: XR_NULL_PATH_def)
  have c: "getActionSide (getXrPath gamepad_runtime 1) < 0"
    by (simp add: getActionSide_def getXrPath_def gamepad_runtime_def initial_runtime_def
        XR_NULL_PATH_def startsWith_def)
  have d: "at_side (m_currentInteractionProfile gamepad_runtime) 0 = 7"
    by (simp add: at_side_def gamepad_runtime_def initial_runtime_def)
  show ?thesis
    using current_profile_default_and_unsupported [OF a b c] d by simp
qed

section \<open>Attachment\<close>

text \<open>
  C6. One set (handle 1) exists and nothing is attached. Attaching the list [1, 2]
  fails with \<open>XR_ERROR_HANDLE_INVALID\<close> at the unknown handle 2, and set 1, which comes
  before it in the list, stays attached. An attach call for set 1 alone is then
  refused as a second attachment, although no attach call has succeeded.
\<close>

theorem failed_attach_keeps_earlier_sets:
  "fst (xrAttachSessionActionSets one_set_runtime 1 attach_known_then_unknown)
     = Inl XR_ERROR_HANDLE_INVALID
   \<and> m_activeActionSets one_set_runtime = {}
   \<and> m_activeActionSets (snd (xrAttachSessionActionSets one_set_runtime 1 attach_known_then_unknown))
     = {1}
   \<and> fst (xrAttachSessionActionSets
            (snd (xrAttachSessionActionSets one_set_runtime 1 attach_known_then_unknown))
            1 attach_first_set)
     = Inl XR_ERROR_ACTIONSETS_ALREADY_ATTACHED"
  by (simp add: xrAttachSessionActionSets_def attach_known_then_unknown_def one_set_runtime_def
      attach_first_set_def initial_runtime_def)

theorem failed_attach_keeps_earlier_sets_witness:
  "m_activeActionSets (snd (xrAttachSessionActionSets one_set_runtime 1 attach_known_then_unknown))
     \<noteq> m_activeActionSets one_set_runtime"
  using failed_attach_keeps_earlier_sets by simp

section \<open>Evaluating the concrete sessions\<close>

lemmas session_defs = session_runtime_def initial_runtime_def pressed_input_def no_input_def
  select_action_def trigger_action_def thumbstick_action_def grip_action_def haptic_action_def
  new_Action_def get_select_def get_trigger_def get_thumbstick_def get_grip_def use_haptic_def

lemmas path_defs = getActionPath_def getActionSide_def startsWith_def endsWith_def getXrPath_def
  XR_NULL_PATH_def at_side_def XR_FALSE_def

lemma select_query:
  "xrGetActionStateBoolean nanoseconds session_runtime 1 get_select XR_TYPE_ACTION_STATE_BOOLEAN
     = (Inr \<lparr>isActive = 1, currentState = 4, changedSinceLastSync = 1,
              lastChangeTime = 10000000000\<rparr>,
        snd (xrGetActionStateBoolean nanoseconds session_runtime 1 get_select
               XR_TYPE_ACTION_STATE_BOOLEAN))"
  by (simp add: xrGetActionStateBoolean_def validate_action_def boolean_state_def session_defs
      path_defs nanoseconds_def Let_def)

lemmas profile_defs = simple_controller_def touch_controller_def motion_controller_def
  index_controller_def



lemma latched_runtime_fields:
  "m_sessionCreated latched_runtime"
  "m_activeActionSets latched_runtime = {1, 2}"
  "m_frameLatchedActionSets latched_runtime = {1}"
  "m_cachedControllerType latched_runtime = ([], [])"
  by (simp_all add: latched_runtime_def calls_latching_first_set_def simple_environment_def
      initial_runtime_def xrCreateActionSet_def xrAttachSessionActionSets_def
      attach_both_sets_def xrSyncActions_def sync_first_set_def sync_side_def
      no_controllers_def at_side_def set_side_def insert_commute)

lemma never_latched_runtime_fields:
  "m_sessionCreated never_latched_runtime"
  "m_strings never_latched_runtime
     = [(1, ''/interaction_profiles/khr/simple_controller''),
        (2, ''/user/hand/left/input/select/click'')]"
  "m_activeActionSets never_latched_runtime = {1}"
  "m_frameLatchedActionSets never_latched_runtime = {}"
  "m_isControllerActive never_latched_runtime = (True, False)"
  "m_actions never_latched_runtime 100
     = Some (new_Action\<lparr>type := XR_ACTION_TYPE_BOOLEAN_INPUT, actionSet := 1,
                          path := ''/user/hand/left/input/select/click'',
                          buttonMap := Some In_HandButtons, buttonType := 1\<rparr>)"
  by (simp_all add: never_latched_runtime_def calls_without_latch_def calls_with_knuckles_def
      click_environment_def initial_runtime_def xrStringToPath_def xrCreateActionSet_def
      xrCreateAction_def xrSuggestInteractionProfileBindings_def xrAttachSessionActionSets_def
      attach_first_set_def xrSyncActions_def sync_no_set_def sync_side_def
      knuckles_on_the_left_def rebindControllerActions_def identify_controller_def
      fallbacks_def click_mappings_def wire_click_def getXrPath_def XR_NULL_PATH_def
      XR_NULL_HANDLE_def at_side_def set_side_def profile_defs new_Action_def Let_def)

section \<open>What a call leaves alone\<close>

text \<open>
  The attached sets, the latched sets and the two creation flags through the path
  interner, the resolver and the synchronisation.
\<close>

lemma xrStringToPath_tracker:
  "xrStringToPath rt i str = (r, rt') \<Longrightarrow>
   m_activeActionSets rt' = m_activeActionSets rt
   \<and> m_frameLatchedActionSets rt' = m_frameLatchedActionSets rt
   \<and> m_sessionCreated rt' = m_sessionCreated rt
   \<and> m_instanceCreated rt' = m_instanceCreated rt"
  by (auto simp add: xrStringToPath_def Let_def split: option.splits if_splits)

lemma map_bindings_tracker:
  "m_activeActionSets (map_bindings mapping rt bs) = m_activeActionSets rt
   \<and> m_frameLatchedActionSets (map_bindings mapping rt bs) = m_frameLatchedActionSets rt
   \<and> m_sessionCreated (map_bindings mapping rt bs) = m_sessionCreated rt
   \<and> m_instanceCreated (map_bindings mapping rt bs) = m_instanceCreated rt"
  by (induction bs arbitrary: rt) (auto split: option.splits)

lemma rebindControllerActions_tracker:
  assumes "rebindControllerActions table rt side = (r, rt')"
  shows "m_activeActionSets rt' = m_activeActionSets rt
   \<and> m_frameLatchedActionSets rt' = m_frameLatchedActionSets rt
   \<and> m_sessionCreated rt' = m_sessionCreated rt
   \<and> m_instanceCreated rt' = m_instanceCreated rt"
proof -
  obtain pref loc aim where i: "identify_controller (at_side (m_cachedControllerType rt) side) = (pref, loc, aim)"
    by (cases "identify_controller (at_side (m_cachedControllerType rt) side)") auto
  show ?thesis
    using assms unfolding rebindControllerActions_def i
    by (auto simp add: Let_def map_bindings_tracker split: option.splits prod.splits sum.splits
        dest!: xrStringToPath_tracker)
qed

lemma sync_side_tracker:
  assumes "sync_side table pvr rt side = (r, rt')"
  shows "m_activeActionSets rt' = m_activeActionSets rt
   \<and> m_frameLatchedActionSets rt' = m_frameLatchedActionSets rt
   \<and> m_sessionCreated rt' = m_sessionCreated rt
   \<and> m_instanceCreated rt' = m_instanceCreated rt"
  using assms unfolding sync_side_def
  by (auto simp add: Let_def split: if_splits dest!: rebindControllerActions_tracker)

lemma latch_each_tracker:
  "latch_each rt sets = (r, rt') \<Longrightarrow>
   m_activeActionSets rt' = m_activeActionSets rt
   \<and> m_sessionCreated rt' = m_sessionCreated rt
   \<and> m_instanceCreated rt' = m_instanceCreated rt
   \<and> m_frameLatchedActionSets rt \<subseteq> m_frameLatchedActionSets rt'"
proof (induction sets arbitrary: rt)
  case Nil
  then show ?case by simp
next
  case (Cons a sets)
  show ?case
  proof (cases "active_actionSet a \<in> m_activeActionSets rt")
    case True
    with Cons.prems have "latch_each (rt\<lparr>m_frameLatchedActionSets :=
                   insert (active_actionSet a) (m_frameLatchedActionSets rt)\<rparr>) sets = (r, rt')"
      by simp
    from Cons.IH [OF this] show ?thesis by auto
  next
    case False
    with Cons.prems show ?thesis by simp
  qed
qed

lemma latch_each_success:
  "latch_each rt sets = (Inr u, rt') \<Longrightarrow>
   m_frameLatchedActionSets rt'
     = m_frameLatchedActionSets rt \<union> active_actionSet ` set sets"
proof (induction sets arbitrary: rt)
  case Nil
  then show ?case by simp
next
  case (Cons a sets)
  show ?case
  proof (cases "active_actionSet a \<in> m_activeActionSets rt")
    case True
    with Cons.prems have "latch_each (rt\<lparr>m_frameLatchedActionSets :=
                   insert (active_actionSet a) (m_frameLatchedActionSets rt)\<rparr>) sets = (Inr u, rt')"
      by simp
    from Cons.IH [OF this] show ?thesis by auto
  next
    case False
    with Cons.prems show ?thesis by simp
  qed
qed

lemma xrSyncActions_tracker:
  assumes "xrSyncActions table pvr rt session syncInfo = (r, rt')"
  shows "m_activeActionSets rt' = m_activeActionSets rt
   \<and> m_sessionCreated rt' = m_sessionCreated rt
   \<and> m_instanceCreated rt' = m_instanceCreated rt"
  using assms unfolding xrSyncActions_def
  by (auto split: if_splits prod.splits sum.splits option.splits
      dest!: latch_each_tracker sync_side_tracker)

section \<open>Latching\<close>

text \<open>
  C2, amended. A successful \<open>xrSyncActions\<close> adds the declared sets to the latched
  sets: afterwards the latched collection is the one before the call together with
  the sets declared in the call. The call removes nothing from it.
\<close>

theorem sync_adds_declared_sets:
  assumes "xrSyncActions table pvr rt session syncInfo = (Inr u, rt')"
  shows "m_frameLatchedActionSets rt'
           = m_frameLatchedActionSets rt \<union> active_actionSet ` set (activeActionSets syncInfo)"
proof -
  from assms obtain rt1 inputState rt2 u1 u2 where
    l: "latch_each rt (activeActionSets syncInfo) = (Inr u1, rt1)" and
    s0: "sync_side table pvr (rt1\<lparr>m_cachedInputState := inputState\<rparr>) 0 = (Inr u2, rt2)" and
    s1: "sync_side table pvr rt2 1 = (Inr u, rt')"
    unfolding xrSyncActions_def
    by (auto split: if_splits prod.splits sum.splits option.splits)
  have "m_frameLatchedActionSets rt' = m_frameLatchedActionSets rt2"
    using sync_side_tracker [OF s1] by simp
  also have "\<dots> = m_frameLatchedActionSets rt1"
    using sync_side_tracker [OF s0] by simp
  also have "\<dots> = m_frameLatchedActionSets rt \<union> active_actionSet ` set (activeActionSets syncInfo)"
    using latch_each_success [OF l] .
  finally show ?thesis .
qed

text \<open>
  C2 as stated fails: sets 1 and 2 are created and attached and a synchronisation
  declares set 1; the next synchronisation declares only set 2, succeeds, and leaves
  set 1 latched.
\<close>

theorem sync_keeps_earlier_latch_counterexample:
  "fst (xrSyncActions no_mappings no_controllers latched_runtime 1 sync_second_set) = Inr ()
   \<and> 1 \<notin> active_actionSet ` set (activeActionSets sync_second_set)
   \<and> 1 \<in> m_frameLatchedActionSets
           (snd (xrSyncActions no_mappings no_controllers latched_runtime 1 sync_second_set))"
  by (simp add: xrSyncActions_def sync_side_def no_mappings_def no_controllers_def
      latched_runtime_fields sync_second_set_def at_side_def set_side_def)

theorem sync_adds_declared_sets_witness:
  "m_frameLatchedActionSets
     (snd (xrSyncActions no_mappings no_controllers latched_runtime 1 sync_second_set)) = {1, 2}"
proof -
  have r: "fst (xrSyncActions no_mappings no_controllers latched_runtime 1 sync_second_set) = Inr ()"
    by (simp add: xrSyncActions_def sync_side_def no_mappings_def no_controllers_def
      latched_runtime_fields sync_second_set_def at_side_def set_side_def)
  then have "xrSyncActions no_mappings no_controllers latched_runtime 1 sync_second_set
      = (Inr (), snd (xrSyncActions no_mappings no_controllers latched_runtime 1 sync_second_set))"
    by (metis prod.collapse)
  from sync_adds_declared_sets [OF this] show ?thesis
    by (simp add: latched_runtime_fields sync_second_set_def insert_commute)
qed

section \<open>One-shot attachment\<close>

lemma attach_each_tracker:
  "attach_each rt sets = (r, rt') \<Longrightarrow>
   m_activeActionSets rt \<subseteq> m_activeActionSets rt'
   \<and> m_sessionCreated rt' = m_sessionCreated rt
   \<and> m_instanceCreated rt' = m_instanceCreated rt"
proof (induction sets arbitrary: rt)
  case Nil
  then show ?case by simp
next
  case (Cons s sets)
  show ?case
  proof (cases "s \<in> m_actionSets rt")
    case True
    with Cons.prems have "attach_each (rt\<lparr>m_activeActionSets := insert s (m_activeActionSets rt)\<rparr>) sets = (r, rt')"
      by simp
    from Cons.IH [OF this] show ?thesis by auto
  next
    case False
    with Cons.prems show ?thesis by simp
  qed
qed

lemma attach_each_success:
  "attach_each rt sets = (Inr u, rt') \<Longrightarrow>
   m_activeActionSets rt' = m_activeActionSets rt \<union> set sets"
proof (induction sets arbitrary: rt)
  case Nil
  then show ?case by simp
next
  case (Cons s sets)
  show ?case
  proof (cases "s \<in> m_actionSets rt")
    case True
    with Cons.prems have "attach_each (rt\<lparr>m_activeActionSets := insert s (m_activeActionSets rt)\<rparr>) sets = (Inr u, rt')"
      by simp
    from Cons.IH [OF this] show ?thesis by auto
  next
    case False
    with Cons.prems show ?thesis by simp
  qed
qed

lemma xrAttachSessionActionSets_tracker:
  "xrAttachSessionActionSets rt session attachInfo = (r, rt') \<Longrightarrow>
   m_activeActionSets rt \<subseteq> m_activeActionSets rt'
   \<and> m_sessionCreated rt' = m_sessionCreated rt
   \<and> m_instanceCreated rt' = m_instanceCreated rt"
  unfolding xrAttachSessionActionSets_def
  by (auto split: if_splits dest!: attach_each_tracker)

lemma query_tracker:
  "m_activeActionSets (snd (xrGetActionStateBoolean t rt session getInfo ty)) = m_activeActionSets rt
   \<and> m_sessionCreated (snd (xrGetActionStateBoolean t rt session getInfo ty)) = m_sessionCreated rt
   \<and> m_instanceCreated (snd (xrGetActionStateBoolean t rt session getInfo ty)) = m_instanceCreated rt"
  "m_activeActionSets (snd (xrGetActionStateFloat t rt session getInfo ty)) = m_activeActionSets rt
   \<and> m_sessionCreated (snd (xrGetActionStateFloat t rt session getInfo ty)) = m_sessionCreated rt
   \<and> m_instanceCreated (snd (xrGetActionStateFloat t rt session getInfo ty)) = m_instanceCreated rt"
  "m_activeActionSets (snd (xrGetActionStateVector2f t rt session getInfo ty)) = m_activeActionSets rt
   \<and> m_sessionCreated (snd (xrGetActionStateVector2f t rt session getInfo ty)) = m_sessionCreated rt
   \<and> m_instanceCreated (snd (xrGetActionStateVector2f t rt session getInfo ty)) = m_instanceCreated rt"
  "snd (xrGetActionStatePose rt session getInfo ty) = rt"
  by (simp_all add: xrGetActionStateBoolean_def xrGetActionStateFloat_def
      xrGetActionStateVector2f_def xrGetActionStatePose_def Let_def
      split: sum.splits prod.splits)

lemma registry_tracker:
  "m_activeActionSets (snd (xrCreateActionSet rt i ty)) = m_activeActionSets rt
   \<and> m_sessionCreated (snd (xrCreateActionSet rt i ty)) = m_sessionCreated rt
   \<and> m_instanceCreated (snd (xrCreateActionSet rt i ty)) = m_instanceCreated rt"
  "m_activeActionSets (snd (xrDestroyActionSet rt s)) = m_activeActionSets rt
   \<and> m_sessionCreated (snd (xrDestroyActionSet rt s)) = m_sessionCreated rt
   \<and> m_instanceCreated (snd (xrDestroyActionSet rt s)) = m_instanceCreated rt"
  "m_activeActionSets (snd (xrCreateAction rt s ci addr)) = m_activeActionSets rt
   \<and> m_sessionCreated (snd (xrCreateAction rt s ci addr)) = m_sessionCreated rt
   \<and> m_instanceCreated (snd (xrCreateAction rt s ci addr)) = m_instanceCreated rt"
  "m_activeActionSets (snd (xrDestroyAction rt a)) = m_activeActionSets rt
   \<and> m_sessionCreated (snd (xrDestroyAction rt a)) = m_sessionCreated rt
   \<and> m_instanceCreated (snd (xrDestroyAction rt a)) = m_instanceCreated rt"
  "m_activeActionSets (snd (xrSuggestInteractionProfileBindings rt i sb)) = m_activeActionSets rt
   \<and> m_sessionCreated (snd (xrSuggestInteractionProfileBindings rt i sb)) = m_sessionCreated rt
   \<and> m_instanceCreated (snd (xrSuggestInteractionProfileBindings rt i sb)) = m_instanceCreated rt"
  by (simp_all add: xrCreateActionSet_def xrDestroyActionSet_def xrCreateAction_def
      xrDestroyAction_def xrSuggestInteractionProfileBindings_def Let_def)

lemma xrEnumerateBoundSourcesForAction_tracker:
  "xrEnumerateBoundSourcesForAction rt session ei cap srcs = (r, rt') \<Longrightarrow>
   m_activeActionSets rt' = m_activeActionSets rt
   \<and> m_sessionCreated rt' = m_sessionCreated rt
   \<and> m_instanceCreated rt' = m_instanceCreated rt"
  unfolding xrEnumerateBoundSourcesForAction_def
  by (auto simp add: Let_def split: if_splits option.splits prod.splits sum.splits
      dest!: xrStringToPath_tracker)

lemma exec_tracker:
  "m_activeActionSets rt \<subseteq> m_activeActionSets (exec env rt c)
   \<and> m_sessionCreated (exec env rt c) = m_sessionCreated rt
   \<and> m_instanceCreated (exec env rt c) = m_instanceCreated rt"
proof (cases c)
  case (Call_xrStringToPath i str)
  then show ?thesis
    using xrStringToPath_tracker [of rt i str "fst (xrStringToPath rt i str)" "snd (xrStringToPath rt i str)"]
    by simp
next
  case (Call_xrAttachSessionActionSets session ai)
  then show ?thesis
    using xrAttachSessionActionSets_tracker [of rt session ai
        "fst (xrAttachSessionActionSets rt session ai)" "snd (xrAttachSessionActionSets rt session ai)"]
    by simp
next
  case (Call_xrSyncActions pvr session si)
  then show ?thesis
    using xrSyncActions_tracker [of "m_controllerMappingTable env" pvr rt session si
        "fst (xrSyncActions (m_controllerMappingTable env) pvr rt session si)"
        "snd (xrSyncActions (m_controllerMappingTable env) pvr rt session si)"]
    by simp
next
  case (Call_xrEnumerateBoundSourcesForAction session ei cap srcs)
  then show ?thesis
    using xrEnumerateBoundSourcesForAction_tracker [of rt session ei cap srcs
        "fst (xrEnumerateBoundSourcesForAction rt session ei cap srcs)"
        "snd (xrEnumerateBoundSourcesForAction rt session ei cap srcs)"]
    by simp
qed (simp_all add: query_tracker registry_tracker)

lemma exec_all_tracker:
  "m_activeActionSets rt \<subseteq> m_activeActionSets (exec_all env rt cs)
   \<and> m_sessionCreated (exec_all env rt cs) = m_sessionCreated rt
   \<and> m_instanceCreated (exec_all env rt cs) = m_instanceCreated rt"
proof (induction cs arbitrary: rt)
  case Nil
  show ?case by simp
next
  case (Cons c cs)
  have "m_activeActionSets rt \<subseteq> m_activeActionSets (exec env rt c)"
    using exec_tracker [of rt env c] by simp
  also have "\<dots> \<subseteq> m_activeActionSets (exec_all env (exec env rt c) cs)"
    using Cons.IH [of "exec env rt c"] by simp
  finally show ?case
    using Cons.IH [of "exec env rt c"] exec_tracker [of rt env c] by simp
qed

text \<open>
  C3, amended. After a successful \<open>xrAttachSessionActionSets\<close> that listed at least
  one set, and after any further calls of the entry points of action.cpp, every
  well-formed attach call on the session fails with
  \<open>XR_ERROR_ACTIONSETS_ALREADY_ATTACHED\<close>, whatever its list, and so does every
  well-formed \<open>xrSuggestInteractionProfileBindings\<close> on the instance.
\<close>

theorem attach_freezes_bindings:
  assumes "xrAttachSessionActionSets rt session attachInfo = (Inr u, rt1)"
    and "actionSets attachInfo \<noteq> []"
    and "m_instanceCreated rt"
    and "attachInfo_type later = XR_TYPE_SESSION_ACTION_SETS_ATTACH_INFO"
    and "suggestedBindings_type sb = XR_TYPE_INTERACTION_PROFILE_SUGGESTED_BINDING"
  shows "fst (xrAttachSessionActionSets (exec_all env rt1 calls) 1 later)
           = Inl XR_ERROR_ACTIONSETS_ALREADY_ATTACHED
         \<and> fst (xrSuggestInteractionProfileBindings (exec_all env rt1 calls) 1 sb)
           = Inl XR_ERROR_ACTIONSETS_ALREADY_ATTACHED"
proof -
  from assms(1) have created: "m_sessionCreated rt" and
    each: "attach_each rt (actionSets attachInfo) = (Inr u, rt1)"
    unfolding xrAttachSessionActionSets_def by (auto split: if_splits)
  from attach_each_success [OF each] assms(2) have "m_activeActionSets rt1 \<noteq> {}"
    by simp
  with exec_all_tracker [of rt1 env calls]
  have nonempty: "m_activeActionSets (exec_all env rt1 calls) \<noteq> {}"
    by auto
  from attach_each_tracker [OF each] created assms(3)
  have "m_sessionCreated rt1" "m_instanceCreated rt1"
    by simp_all
  with exec_all_tracker [of rt1 env calls]
  have flags: "m_sessionCreated (exec_all env rt1 calls)" "m_instanceCreated (exec_all env rt1 calls)"
    by simp_all
  show ?thesis
    using nonempty flags assms(4,5)
    by (simp add: xrAttachSessionActionSets_def xrSuggestInteractionProfileBindings_def)
qed

theorem attach_freezes_bindings_witness:
  "fst (xrAttachSessionActionSets
          (exec_all simple_environment
             (snd (xrAttachSessionActionSets one_set_runtime 1 attach_first_set))
             calls_after_attach) 1 attach_first_set)
     = Inl XR_ERROR_ACTIONSETS_ALREADY_ATTACHED
   \<and> fst (xrSuggestInteractionProfileBindings
          (exec_all simple_environment
             (snd (xrAttachSessionActionSets one_set_runtime 1 attach_first_set))
             calls_after_attach) 1 suggest_nothing)
     = Inl XR_ERROR_ACTIONSETS_ALREADY_ATTACHED"
proof -
  have "fst (xrAttachSessionActionSets one_set_runtime 1 attach_first_set) = Inr ()"
    by (simp add: xrAttachSessionActionSets_def attach_first_set_def one_set_runtime_def
        initial_runtime_def)
  then have a: "xrAttachSessionActionSets one_set_runtime 1 attach_first_set
      = (Inr (), snd (xrAttachSessionActionSets one_set_runtime 1 attach_first_set))"
    by (metis prod.collapse)
  have b: "actionSets attach_first_set \<noteq> []"
    by (simp add: attach_first_set_def)
  have c: "m_instanceCreated one_set_runtime"
    by (simp add: one_set_runtime_def initial_runtime_def)
  have d: "attachInfo_type attach_first_set = XR_TYPE_SESSION_ACTION_SETS_ATTACH_INFO"
    by (simp add: attach_first_set_def)
  have e: "suggestedBindings_type suggest_nothing = XR_TYPE_INTERACTION_PROFILE_SUGGESTED_BINDING"
    by (simp add: suggest_nothing_def)
  show ?thesis
    using attach_freezes_bindings [OF a b c d e] .
qed

text \<open>
  C3 as stated fails: an attach call with an empty list succeeds and attaches
  nothing, so the next attach call and the next suggestion succeed as well.
\<close>

theorem empty_attach_freezes_nothing_counterexample:
  "fst (xrAttachSessionActionSets initial_runtime 1 attach_nothing) = Inr ()
   \<and> fst (xrAttachSessionActionSets
            (snd (xrAttachSessionActionSets initial_runtime 1 attach_nothing)) 1 attach_nothing)
       = Inr ()
   \<and> fst (xrSuggestInteractionProfileBindings
            (snd (xrAttachSessionActionSets initial_runtime 1 attach_nothing)) 1 suggest_nothing)
       = Inr ()"
  by (simp add: xrAttachSessionActionSets_def xrSuggestInteractionProfileBindings_def
      attach_nothing_def suggest_nothing_def initial_runtime_def)

section \<open>The value of a boolean action\<close>

text \<open>
  C8, amended. Take a boolean action that passes the validation of the query, has a
  bound path and a full path that resolves to a hand whose controller is present, and
  whose set is latched. The boolean query succeeds and reports the action active.
  When the action is bound through a button field, \<open>currentState\<close> is the button
  bitmask of the hand and-ed with the mask of the action; when it is bound through a
  float field only, \<open>currentState\<close> is true exactly when the value of the hand is
  greater than the single-precision constant \<open>0.99f\<close>, the float nearest to 0.99.
\<close>

theorem boolean_current_state:
  assumes "getInfo_type g = XR_TYPE_ACTION_STATE_GET_INFO"
    and "m_sessionCreated rt"
    and "m_actions rt (getInfo_action g) = Some a"
    and "type a = XR_ACTION_TYPE_BOOLEAN_INPUT"
    and "actionSet a \<in> m_activeActionSets rt"
    and "path a \<noteq> []"
    and "side = getActionSide (getActionPath rt a (getInfo_subactionPath g))"
    and "0 \<le> side"
    and "at_side (m_isControllerActive rt) side"
    and "actionSet a \<in> m_frameLatchedActionSets rt"
    and "buttonMap a = Some buttons \<or> (buttonMap a = None \<and> floatValue a = Some floats)"
  shows "\<exists>st rt'.
           xrGetActionStateBoolean t rt 1 g XR_TYPE_ACTION_STATE_BOOLEAN = (Inr st, rt')
           \<and> isActive st = 1
           \<and> currentState st
               = (if buttonMap a = Some buttons
                  then read_buttons (m_cachedInputState rt) buttons side AND buttonType a
                  else of_bool (float_gt (read_float (m_cachedInputState rt) floats side)
                                         float_0_99f))"
proof -
  have v: "validate_action rt 1 (getInfo_action g) XR_ACTION_TYPE_BOOLEAN_INPUT = Inr a"
    using assms(2-5) by (simp add: validate_action_def)
  have b: "boolean_state rt a (getInfo_subactionPath g)
             = Inr (1, if buttonMap a = Some buttons
                       then read_buttons (m_cachedInputState rt) buttons side AND buttonType a
                       else of_bool (float_gt (read_float (m_cachedInputState rt) floats side)
                                              float_0_99f))"
    using assms(6-11) by (auto simp add: boolean_state_def Let_def)
  show ?thesis
    using assms(1) v b by (simp add: xrGetActionStateBoolean_def Let_def)
qed

lemmas boolean_defs = boolean_runtime_def threshold_runtime_def menu_action_def
  squeeze_action_def pull_action_def get_menu_def get_squeeze_def get_pull_def float_0_99f_def

theorem boolean_current_state_witness:
  "(\<exists>st r. xrGetActionStateBoolean nanoseconds boolean_runtime 1 get_select
               XR_TYPE_ACTION_STATE_BOOLEAN = (Inr st, r)
            \<and> isActive st = 1 \<and> currentState st = 4)
   \<and> (\<exists>st r. xrGetActionStateBoolean nanoseconds boolean_runtime 1 get_menu
                 XR_TYPE_ACTION_STATE_BOOLEAN = (Inr st, r)
              \<and> isActive st = 1 \<and> currentState st = 0)
   \<and> (\<exists>st r. xrGetActionStateBoolean nanoseconds boolean_runtime 1 get_squeeze
                 XR_TYPE_ACTION_STATE_BOOLEAN = (Inr st, r)
              \<and> isActive st = 1 \<and> currentState st = 1)
   \<and> (\<exists>st r. xrGetActionStateBoolean nanoseconds boolean_runtime 1 get_pull
                 XR_TYPE_ACTION_STATE_BOOLEAN = (Inr st, r)
              \<and> isActive st = 1 \<and> currentState st = 0)"
proof -
  have ty: "getInfo_type get_select = XR_TYPE_ACTION_STATE_GET_INFO"
    "getInfo_type get_menu = XR_TYPE_ACTION_STATE_GET_INFO"
    "getInfo_type get_squeeze = XR_TYPE_ACTION_STATE_GET_INFO"
    "getInfo_type get_pull = XR_TYPE_ACTION_STATE_GET_INFO"
    by (simp_all add: get_select_def boolean_defs)
  have created: "m_sessionCreated boolean_runtime"
    by (simp add: boolean_defs session_defs)
  have look: "m_actions boolean_runtime (getInfo_action get_select) = Some select_action"
    "m_actions boolean_runtime (getInfo_action get_menu) = Some menu_action"
    "m_actions boolean_runtime (getInfo_action get_squeeze) = Some squeeze_action"
    "m_actions boolean_runtime (getInfo_action get_pull) = Some pull_action"
    by (simp_all add: boolean_runtime_def get_select_def get_menu_def get_squeeze_def
        get_pull_def)
  have kind: "type select_action = XR_ACTION_TYPE_BOOLEAN_INPUT"
    "type menu_action = XR_ACTION_TYPE_BOOLEAN_INPUT"
    "type squeeze_action = XR_ACTION_TYPE_BOOLEAN_INPUT"
    "type pull_action = XR_ACTION_TYPE_BOOLEAN_INPUT"
    by (simp_all add: boolean_defs session_defs)
  have attached: "actionSet select_action \<in> m_activeActionSets boolean_runtime"
    "actionSet menu_action \<in> m_activeActionSets boolean_runtime"
    "actionSet squeeze_action \<in> m_activeActionSets boolean_runtime"
    "actionSet pull_action \<in> m_activeActionSets boolean_runtime"
    by (simp_all add: boolean_defs session_defs)
  have bound: "path select_action \<noteq> []" "path menu_action \<noteq> []"
    "path squeeze_action \<noteq> []" "path pull_action \<noteq> []"
    by (simp_all add: boolean_defs session_defs)
  have side: "0 = getActionSide (getActionPath boolean_runtime select_action
                                   (getInfo_subactionPath get_select))"
    "0 = getActionSide (getActionPath boolean_runtime menu_action
                          (getInfo_subactionPath get_menu))"
    "0 = getActionSide (getActionPath boolean_runtime squeeze_action
                          (getInfo_subactionPath get_squeeze))"
    "0 = getActionSide (getActionPath boolean_runtime pull_action
                          (getInfo_subactionPath get_pull))"
    by (simp_all add: boolean_defs session_defs path_defs)
  have hand: "(0 :: int) \<le> 0"
    by simp
  have present: "at_side (m_isControllerActive boolean_runtime) 0"
    by (simp add: boolean_defs session_defs at_side_def)
  have latched: "actionSet select_action \<in> m_frameLatchedActionSets boolean_runtime"
    "actionSet menu_action \<in> m_frameLatchedActionSets boolean_runtime"
    "actionSet squeeze_action \<in> m_frameLatchedActionSets boolean_runtime"
    "actionSet pull_action \<in> m_frameLatchedActionSets boolean_runtime"
    by (simp_all add: boolean_defs session_defs)
  have field: "buttonMap select_action = Some In_HandButtons
                 \<or> (buttonMap select_action = None \<and> floatValue select_action = Some In_Trigger)"
    "buttonMap menu_action = Some In_HandButtons
       \<or> (buttonMap menu_action = None \<and> floatValue menu_action = Some In_Trigger)"
    "buttonMap squeeze_action = Some In_HandButtons
       \<or> (buttonMap squeeze_action = None \<and> floatValue squeeze_action = Some In_Grip)"
    "buttonMap pull_action = Some In_HandButtons
       \<or> (buttonMap pull_action = None \<and> floatValue pull_action = Some In_Trigger)"
    by (simp_all add: boolean_defs session_defs)
  note select = boolean_current_state [OF ty(1) created look(1) kind(1) attached(1) bound(1)
      side(1) hand present latched(1) field(1), of nanoseconds]
  note menu = boolean_current_state [OF ty(2) created look(2) kind(2) attached(2) bound(2)
      side(2) hand present latched(2) field(2), of nanoseconds]
  note squeeze = boolean_current_state [OF ty(3) created look(3) kind(3) attached(3) bound(3)
      side(3) hand present latched(3) field(3), of nanoseconds]
  note pull = boolean_current_state [OF ty(4) created look(4) kind(4) attached(4) bound(4)
      side(4) hand present latched(4) field(4), of nanoseconds]
  have vals: "read_buttons (m_cachedInputState boolean_runtime) In_HandButtons 0
                  AND buttonType select_action = 4"
    "read_buttons (m_cachedInputState boolean_runtime) In_HandButtons 0
       AND buttonType menu_action = 0"
    "of_bool (float_gt (read_float (m_cachedInputState boolean_runtime) In_Grip 0) float_0_99f)
       = (1 :: XrBool32)"
    "of_bool (float_gt (read_float (m_cachedInputState boolean_runtime) In_Trigger 0) float_0_99f)
       = (0 :: XrBool32)"
    "buttonMap select_action = Some In_HandButtons" "buttonMap menu_action = Some In_HandButtons"
    "buttonMap squeeze_action \<noteq> Some In_HandButtons"
    "buttonMap pull_action \<noteq> Some In_HandButtons"
    by (simp_all add: boolean_defs session_defs at_side_def)
  from select menu squeeze pull show ?thesis
    by (simp add: vals del: read_buttons.simps read_float.simps)
qed

text \<open>
  C8 as stated fails: the pull action is active, latched and bound through the trigger,
  and the trigger reads the float \<open>0.99f\<close>, which is 16609444 / 16777216 and so
  greater than 0.99; the query reports false.
\<close>

theorem reading_at_threshold_counterexample:
  "fst (xrGetActionStateBoolean nanoseconds threshold_runtime 1 get_pull
          XR_TYPE_ACTION_STATE_BOOLEAN)
     = Inr \<lparr>isActive = 1, currentState = 0, changedSinceLastSync = 0, lastChangeTime = 0\<rparr>
   \<and> map_option buttonMap (m_actions threshold_runtime (getInfo_action get_pull)) = Some None
   \<and> map_option floatValue (m_actions threshold_runtime (getInfo_action get_pull))
       = Some (Some In_Trigger)
   \<and> 1 \<in> m_frameLatchedActionSets threshold_runtime
   \<and> read_float (m_cachedInputState threshold_runtime) In_Trigger 0
       = Finite (16609444 / 16777216)
   \<and> float_gt (Finite (16609444 / 16777216)) (Finite (99 / 100))"
  by (simp add: xrGetActionStateBoolean_def validate_action_def boolean_state_def
      boolean_defs session_defs path_defs nanoseconds_def Let_def)

section \<open>Haptics\<close>

text \<open>
  C9. An \<open>xrApplyHapticFeedback\<close> call that passes validation, on a vibration
  action whose full path ends in \<open>/output/haptic\<close> and resolves to a hand, with a
  vibration struct in the chain (after any number of structs of other types): when
  the amplitude is greater than 0 exactly one pulse is triggered, on the controller
  of that hand and with that amplitude; otherwise the call succeeds and triggers
  none. The duration and the frequency have no part in the result.
\<close>

theorem haptic_pulse_by_amplitude:
  assumes "hapticActionInfo_type info = XR_TYPE_HAPTIC_ACTION_INFO"
    and "m_sessionCreated rt"
    and "m_actions rt (hapticActionInfo_action info) = Some a"
    and "type a = XR_ACTION_TYPE_VIBRATION_OUTPUT"
    and "actionSet a \<in> m_activeActionSets rt"
    and "path a \<noteq> []"
    and "endsWith (getActionPath rt a (hapticActionInfo_subactionPath info)) ''/output/haptic''"
    and "side = getActionSide (getActionPath rt a (hapticActionInfo_subactionPath info))"
    and "side \<ge> 0"
    and "device = (if side = 0 then pvrTrackedDevice_LeftController
                   else pvrTrackedDevice_RightController)"
  shows "xrApplyHapticFeedback pulse_ok rt 1 info
           (replicate n XrOtherStruct @ XrHapticVibration d f amp # rest)
         = (if float_gt amp (Finite 0)
            then (if pulse_ok (device, amp) then Inr () else Inl PVR_COMMAND_FAILED,
                  [(device, amp)])
            else (Inr (), []))"
proof -
  have entries: "haptic_entries pulse_ok side
                   (replicate n XrOtherStruct @ XrHapticVibration d f amp # rest)
                 = haptic_entries pulse_ok side (XrHapticVibration d f amp # rest)"
    by (induction n) simp_all
  show ?thesis
    using assms entries
    by (simp add: xrApplyHapticFeedback_def validate_action_def Let_def)
qed

theorem haptic_pulse_by_amplitude_witness:
  "xrApplyHapticFeedback pulse_succeeds session_runtime 1 use_haptic
     [XrOtherStruct, XrHapticVibration 1000 (Finite 160) (Finite (1 / 2))]
     = (Inr (), [(pvrTrackedDevice_LeftController, Finite (1 / 2))])
   \<and> xrApplyHapticFeedback pulse_succeeds session_runtime 1 use_haptic
       [XrOtherStruct, XrHapticVibration 1000 (Finite 160) (Finite 0)]
     = (Inr (), [])"
proof -
  have a: "hapticActionInfo_type use_haptic = XR_TYPE_HAPTIC_ACTION_INFO"
    by (simp add: use_haptic_def)
  have b: "m_sessionCreated session_runtime"
    by (simp add: session_defs)
  have c: "m_actions session_runtime (hapticActionInfo_action use_haptic) = Some haptic_action"
    by (simp add: session_runtime_def initial_runtime_def use_haptic_def)
  have d: "type haptic_action = XR_ACTION_TYPE_VIBRATION_OUTPUT"
    by (simp add: session_defs)
  have e: "actionSet haptic_action \<in> m_activeActionSets session_runtime"
    by (simp add: session_defs)
  have f: "path haptic_action \<noteq> []"
    by (simp add: session_defs)
  have g: "endsWith (getActionPath session_runtime haptic_action
                       (hapticActionInfo_subactionPath use_haptic)) ''/output/haptic''"
    by (simp add: session_defs path_defs)
  have h: "0 = getActionSide (getActionPath session_runtime haptic_action
                                (hapticActionInfo_subactionPath use_haptic))"
    by (simp add: session_defs path_defs)
  have i: "(0 :: int) \<ge> 0"
    by simp
  have j: "pvrTrackedDevice_LeftController
             = (if (0 :: int) = 0 then pvrTrackedDevice_LeftController
                else pvrTrackedDevice_RightController)"
    by simp
  show ?thesis
    using haptic_pulse_by_amplitude [OF a b c d e f g h i j, of pulse_succeeds 1 1000 "Finite 160"
        "Finite (1 / 2)" "[]"]
      haptic_pulse_by_amplitude [OF a b c d e f g h i j, of pulse_succeeds 1 1000 "Finite 160"
        "Finite 0" "[]"]
    by (simp add: pulse_succeeds_def)
qed

section \<open>Change detection\<close>

lemma float_ne_self: "float_ne v v = (v = NaN)"
  by (cases v) simp_all

lemma getActionPath_cache:
  "getActionPath (rt\<lparr>m_actions := m\<rparr>) (a\<lparr>lastBoolValue := b, lastBoolValueChangedTime := tm\<rparr>) sub
     = getActionPath rt a sub"
  "getActionPath (rt\<lparr>m_actions := m\<rparr>) (a\<lparr>lastFloatValue := v, lastFloatValueChangedTime := tm\<rparr>) sub
     = getActionPath rt a sub"
  "getActionPath (rt\<lparr>m_actions := m\<rparr>)
       (a\<lparr>lastVector2fValue := w, lastVector2fValueChangedTime := tm\<rparr>) sub
     = getActionPath rt a sub"
  by (simp_all add: getActionPath_def getXrPath_def)

lemma boolean_state_again:
  assumes "boolean_state rt a sub = Inr (active, current)"
  shows "boolean_state (rt\<lparr>m_actions := m\<rparr>)
           (a\<lparr>lastBoolValue := (current \<noteq> 0), lastBoolValueChangedTime := tm\<rparr>) sub
         = Inr (active, current)"
  using assms unfolding boolean_state_def getActionPath_cache
  by (auto simp add: Let_def split: if_splits option.splits)

lemma float_state_again:
  assumes "float_state rt a sub = Inr (active, current)"
  shows "float_state (rt\<lparr>m_actions := m\<rparr>)
           (a\<lparr>lastFloatValue := current, lastFloatValueChangedTime := tm\<rparr>) sub
         = Inr (active, current)"
  using assms unfolding float_state_def getActionPath_cache
  by (auto simp add: Let_def split: if_splits option.splits)

lemma vector2f_state_again:
  assumes "vector2f_state rt a sub = Inr (active, current)"
  shows "vector2f_state (rt\<lparr>m_actions := m\<rparr>)
           (a\<lparr>lastVector2fValue := current, lastVector2fValueChangedTime := tm\<rparr>) sub
         = Inr (active, current)"
  using assms unfolding vector2f_state_def getActionPath_cache
  by (auto simp add: Let_def split: if_splits option.splits)

lemma boolean_change:
  assumes q: "xrGetActionStateBoolean t rt session g ty = (Inr st, rt1)"
    and a: "m_actions rt (getInfo_action g) = Some a"
  shows "changedSinceLastSync st = of_bool ((currentState st \<noteq> 0) \<noteq> lastBoolValue a)
         \<and> m_actions rt1 (getInfo_action g)
             = Some (a\<lparr>lastBoolValue := (currentState st \<noteq> 0),
                        lastBoolValueChangedTime := lastChangeTime st\<rparr>)
         \<and> fst (xrGetActionStateBoolean t rt1 session g ty)
             = Inr (st\<lparr>changedSinceLastSync := 0\<rparr>)"
proof -
  from q a obtain active current where
    v: "validate_action rt session (getInfo_action g) XR_ACTION_TYPE_BOOLEAN_INPUT = Inr a" and
    tys: "getInfo_type g = XR_TYPE_ACTION_STATE_GET_INFO" "ty = XR_TYPE_ACTION_STATE_BOOLEAN" and
    b: "boolean_state rt a (getInfo_subactionPath g) = Inr (active, current)"
    unfolding xrGetActionStateBoolean_def validate_action_def
    by (auto simp add: Let_def split: if_splits sum.splits option.splits prod.splits)
  define changed where "changed = ((current \<noteq> 0) \<noteq> lastBoolValue a)"
  define tm where "tm = (if changed then t (TimeInSeconds (m_cachedInputState rt))
                         else lastBoolValueChangedTime a)"
  define a' where "a' = a\<lparr>lastBoolValue := (current \<noteq> 0), lastBoolValueChangedTime := tm\<rparr>"
  from q v tys b have st: "st = \<lparr>isActive = active, currentState = current,
                             changedSinceLastSync = of_bool changed, lastChangeTime = tm\<rparr>"
    and rt1: "rt1 = rt\<lparr>m_actions := (m_actions rt)(getInfo_action g \<mapsto> a')\<rparr>"
    unfolding xrGetActionStateBoolean_def changed_def tm_def a'_def
    by (auto simp add: Let_def)
  have v1: "validate_action rt1 session (getInfo_action g) XR_ACTION_TYPE_BOOLEAN_INPUT = Inr a'"
    using v a unfolding validate_action_def rt1 a'_def
    by (auto split: if_splits)
  have b1: "boolean_state rt1 a' (getInfo_subactionPath g) = Inr (active, current)"
    unfolding rt1 a'_def by (rule boolean_state_again [OF b])
  have "fst (xrGetActionStateBoolean t rt1 session g ty) = Inr (st\<lparr>changedSinceLastSync := 0\<rparr>)"
    unfolding xrGetActionStateBoolean_def
    using tys v1 b1 by (simp add: Let_def st a'_def)
  then show ?thesis
    by (simp add: st rt1 a'_def changed_def)
qed


lemma float_change:
  assumes q: "xrGetActionStateFloat t rt session g ty = (Inr st, rt1)"
    and a: "m_actions rt (getInfo_action g) = Some a"
  shows "changedSinceLastSync st = of_bool (float_ne (currentState st) (lastFloatValue a))
         \<and> m_actions rt1 (getInfo_action g)
             = Some (a\<lparr>lastFloatValue := currentState st,
                        lastFloatValueChangedTime := lastChangeTime st\<rparr>)
         \<and> (currentState st \<noteq> NaN
              \<longrightarrow> fst (xrGetActionStateFloat t rt1 session g ty)
                    = Inr (st\<lparr>changedSinceLastSync := 0\<rparr>))"
proof -
  from q a obtain active current where
    v: "validate_action rt session (getInfo_action g) XR_ACTION_TYPE_FLOAT_INPUT = Inr a" and
    tys: "getInfo_type g = XR_TYPE_ACTION_STATE_GET_INFO" "ty = XR_TYPE_ACTION_STATE_FLOAT" and
    b: "float_state rt a (getInfo_subactionPath g) = Inr (active, current)"
    unfolding xrGetActionStateFloat_def validate_action_def
    by (auto simp add: Let_def split: if_splits sum.splits option.splits prod.splits)
  define changed where "changed = float_ne current (lastFloatValue a)"
  define tm where "tm = (if changed then t (TimeInSeconds (m_cachedInputState rt))
                         else lastFloatValueChangedTime a)"
  define a' where "a' = a\<lparr>lastFloatValue := current, lastFloatValueChangedTime := tm\<rparr>"
  from q v tys b have st: "st = \<lparr>isActive = active, currentState = current,
                             changedSinceLastSync = of_bool changed, lastChangeTime = tm\<rparr>"
    and rt1: "rt1 = rt\<lparr>m_actions := (m_actions rt)(getInfo_action g \<mapsto> a')\<rparr>"
    unfolding xrGetActionStateFloat_def changed_def tm_def a'_def
    by (auto simp add: Let_def)
  have v1: "validate_action rt1 session (getInfo_action g) XR_ACTION_TYPE_FLOAT_INPUT = Inr a'"
    using v a unfolding validate_action_def rt1 a'_def
    by (auto split: if_splits)
  have b1: "float_state rt1 a' (getInfo_subactionPath g) = Inr (active, current)"
    unfolding rt1 a'_def by (rule float_state_again [OF b])
  have "current \<noteq> NaN \<Longrightarrow>
        fst (xrGetActionStateFloat t rt1 session g ty) = Inr (st\<lparr>changedSinceLastSync := 0\<rparr>)"
    unfolding xrGetActionStateFloat_def
    using tys v1 b1 by (simp add: Let_def st a'_def float_ne_self)
  then show ?thesis
    by (simp add: st rt1 a'_def changed_def)
qed

lemma vector2f_change:
  assumes q: "xrGetActionStateVector2f t rt session g ty = (Inr st, rt1)"
    and a: "m_actions rt (getInfo_action g) = Some a"
  shows "changedSinceLastSync st
           = of_bool (float_ne (vec_x (currentState st)) (vec_x (lastVector2fValue a))
                      \<or> float_ne (vec_y (currentState st)) (vec_y (lastVector2fValue a)))
         \<and> m_actions rt1 (getInfo_action g)
             = Some (a\<lparr>lastVector2fValue := currentState st,
                        lastVector2fValueChangedTime := lastChangeTime st\<rparr>)
         \<and> (vec_x (currentState st) \<noteq> NaN \<and> vec_y (currentState st) \<noteq> NaN
              \<longrightarrow> fst (xrGetActionStateVector2f t rt1 session g ty)
                    = Inr (st\<lparr>changedSinceLastSync := 0\<rparr>))"
proof -
  from q a obtain active current where
    v: "validate_action rt session (getInfo_action g) XR_ACTION_TYPE_VECTOR2F_INPUT = Inr a" and
    tys: "getInfo_type g = XR_TYPE_ACTION_STATE_GET_INFO" "ty = XR_TYPE_ACTION_STATE_VECTOR2F" and
    b: "vector2f_state rt a (getInfo_subactionPath g) = Inr (active, current)"
    unfolding xrGetActionStateVector2f_def validate_action_def
    by (auto simp add: Let_def split: if_splits sum.splits option.splits prod.splits)
  define changed where
    "changed = (float_ne (vec_x current) (vec_x (lastVector2fValue a))
                \<or> float_ne (vec_y current) (vec_y (lastVector2fValue a)))"
  define tm where "tm = (if changed then t (TimeInSeconds (m_cachedInputState rt))
                         else lastVector2fValueChangedTime a)"
  define a' where
    "a' = a\<lparr>lastVector2fValue := current, lastVector2fValueChangedTime := tm\<rparr>"
  from q v tys b have st: "st = \<lparr>isActive = active, currentState = current,
                             changedSinceLastSync = of_bool changed, lastChangeTime = tm\<rparr>"
    and rt1: "rt1 = rt\<lparr>m_actions := (m_actions rt)(getInfo_action g \<mapsto> a')\<rparr>"
    unfolding xrGetActionStateVector2f_def changed_def tm_def a'_def
    by (auto simp add: Let_def)
  have v1: "validate_action rt1 session (getInfo_action g) XR_ACTION_TYPE_VECTOR2F_INPUT = Inr a'"
    using v a unfolding validate_action_def rt1 a'_def
    by (auto split: if_splits)
  have b1: "vector2f_state rt1 a' (getInfo_subactionPath g) = Inr (active, current)"
    unfolding rt1 a'_def by (rule vector2f_state_again [OF b])
  have "vec_x current \<noteq> NaN \<Longrightarrow> vec_y current \<noteq> NaN \<Longrightarrow>
        fst (xrGetActionStateVector2f t rt1 session g ty)
          = Inr (st\<lparr>changedSinceLastSync := 0\<rparr>)"
    unfolding xrGetActionStateVector2f_def
    using tys v1 b1 by (simp add: Let_def st a'_def float_ne_self)
  then show ?thesis
    by (simp add: st rt1 a'_def changed_def)
qed

text \<open>
  C7, amended. In a successful boolean, float or two-axis query,
  \<open>changedSinceLastSync\<close> is true exactly when the computed \<open>currentState\<close> differs
  from the cached value of the action: as truth values for a boolean, under the
  comparison \<open>!=\<close> of floats for a float and for each component of a two-axis value.
  The query stores the computed value and the reported change time in the action,
  active or not. A second query with the same request, with no call in between, then
  reports the same state with \<open>changedSinceLastSync\<close> false, provided no float of
  the value is a NaN. The pose query has no value and no change flag, and leaves the
  runtime as it is.
\<close>

theorem change_detection_and_repeated_query:
  assumes "m_actions rt (getInfo_action gb) = Some ab"
    and "m_actions rt (getInfo_action gf) = Some af"
    and "m_actions rt (getInfo_action gv) = Some av"
  shows "(xrGetActionStateBoolean t rt session gb tb = (Inr sb, rb)
            \<longrightarrow> changedSinceLastSync sb = of_bool ((currentState sb \<noteq> 0) \<noteq> lastBoolValue ab)
                \<and> m_actions rb (getInfo_action gb)
                    = Some (ab\<lparr>lastBoolValue := (currentState sb \<noteq> 0),
                                lastBoolValueChangedTime := lastChangeTime sb\<rparr>)
                \<and> fst (xrGetActionStateBoolean t rb session gb tb)
                    = Inr (sb\<lparr>changedSinceLastSync := 0\<rparr>))
         \<and> (xrGetActionStateFloat t rt session gf tf = (Inr sf, rf)
            \<longrightarrow> changedSinceLastSync sf
                  = of_bool (float_ne (currentState sf) (lastFloatValue af))
                \<and> m_actions rf (getInfo_action gf)
                    = Some (af\<lparr>lastFloatValue := currentState sf,
                                lastFloatValueChangedTime := lastChangeTime sf\<rparr>)
                \<and> (currentState sf \<noteq> NaN
                     \<longrightarrow> fst (xrGetActionStateFloat t rf session gf tf)
                           = Inr (sf\<lparr>changedSinceLastSync := 0\<rparr>)))
         \<and> (xrGetActionStateVector2f t rt session gv tv = (Inr sv, rv)
            \<longrightarrow> changedSinceLastSync sv
                  = of_bool (float_ne (vec_x (currentState sv)) (vec_x (lastVector2fValue av))
                             \<or> float_ne (vec_y (currentState sv)) (vec_y (lastVector2fValue av)))
                \<and> m_actions rv (getInfo_action gv)
                    = Some (av\<lparr>lastVector2fValue := currentState sv,
                                lastVector2fValueChangedTime := lastChangeTime sv\<rparr>)
                \<and> (vec_x (currentState sv) \<noteq> NaN \<and> vec_y (currentState sv) \<noteq> NaN
                     \<longrightarrow> fst (xrGetActionStateVector2f t rv session gv tv)
                           = Inr (sv\<lparr>changedSinceLastSync := 0\<rparr>)))
         \<and> snd (xrGetActionStatePose rt session gp tp) = rt"
proof -
  have "snd (xrGetActionStatePose rt session gp tp) = rt"
    by (simp add: xrGetActionStatePose_def split: sum.splits)
  then show ?thesis
    using boolean_change [OF _ assms(1)] float_change [OF _ assms(2)]
      vector2f_change [OF _ assms(3)]
    by blast
qed

lemma trigger_query:
  "xrGetActionStateFloat nanoseconds session_runtime 1 get_trigger XR_TYPE_ACTION_STATE_FLOAT
     = (Inr \<lparr>isActive = 1, currentState = Finite (1 / 2), changedSinceLastSync = 1,
              lastChangeTime = 10000000000\<rparr>,
        snd (xrGetActionStateFloat nanoseconds session_runtime 1 get_trigger
               XR_TYPE_ACTION_STATE_FLOAT))"
  by (simp add: xrGetActionStateFloat_def validate_action_def float_state_def session_defs
      path_defs nanoseconds_def Let_def)

lemma thumbstick_query:
  "xrGetActionStateVector2f nanoseconds session_runtime 1 get_thumbstick
       XR_TYPE_ACTION_STATE_VECTOR2F
     = (Inr \<lparr>isActive = 1, currentState = XrVector2f (Finite (1 / 4)) (Finite (- 1)),
              changedSinceLastSync = 1, lastChangeTime = 10000000000\<rparr>,
        snd (xrGetActionStateVector2f nanoseconds session_runtime 1 get_thumbstick
               XR_TYPE_ACTION_STATE_VECTOR2F))"
  by (simp add: xrGetActionStateVector2f_def validate_action_def vector2f_state_def session_defs
      path_defs nanoseconds_def Let_def)

theorem change_detection_and_repeated_query_witness:
  "fst (xrGetActionStateBoolean nanoseconds
          (snd (xrGetActionStateBoolean nanoseconds session_runtime 1 get_select
                  XR_TYPE_ACTION_STATE_BOOLEAN))
          1 get_select XR_TYPE_ACTION_STATE_BOOLEAN)
     = Inr \<lparr>isActive = 1, currentState = 4, changedSinceLastSync = 0,
             lastChangeTime = 10000000000\<rparr>
   \<and> fst (xrGetActionStateFloat nanoseconds
          (snd (xrGetActionStateFloat nanoseconds session_runtime 1 get_trigger
                  XR_TYPE_ACTION_STATE_FLOAT))
          1 get_trigger XR_TYPE_ACTION_STATE_FLOAT)
     = Inr \<lparr>isActive = 1, currentState = Finite (1 / 2), changedSinceLastSync = 0,
             lastChangeTime = 10000000000\<rparr>
   \<and> fst (xrGetActionStateVector2f nanoseconds
          (snd (xrGetActionStateVector2f nanoseconds session_runtime 1 get_thumbstick
                  XR_TYPE_ACTION_STATE_VECTOR2F))
          1 get_thumbstick XR_TYPE_ACTION_STATE_VECTOR2F)
     = Inr \<lparr>isActive = 1, currentState = XrVector2f (Finite (1 / 4)) (Finite (- 1)),
             changedSinceLastSync = 0, lastChangeTime = 10000000000\<rparr>"
proof -
  have a: "m_actions session_runtime (getInfo_action get_select) = Some select_action"
    "m_actions session_runtime (getInfo_action get_trigger) = Some trigger_action"
    "m_actions session_runtime (getInfo_action get_thumbstick) = Some thumbstick_action"
    by (simp_all add: session_runtime_def initial_runtime_def
        get_select_def get_trigger_def get_thumbstick_def)
  note c = change_detection_and_repeated_query [OF a, of nanoseconds 1]
  have b: "fst (xrGetActionStateBoolean nanoseconds
          (snd (xrGetActionStateBoolean nanoseconds session_runtime 1 get_select
                  XR_TYPE_ACTION_STATE_BOOLEAN))
          1 get_select XR_TYPE_ACTION_STATE_BOOLEAN)
     = Inr (\<lparr>isActive = 1, currentState = 4, changedSinceLastSync = 1,
             lastChangeTime = 10000000000\<rparr>\<lparr>changedSinceLastSync := 0\<rparr>)"
    using c select_query by blast
  have f: "fst (xrGetActionStateFloat nanoseconds
          (snd (xrGetActionStateFloat nanoseconds session_runtime 1 get_trigger
                  XR_TYPE_ACTION_STATE_FLOAT))
          1 get_trigger XR_TYPE_ACTION_STATE_FLOAT)
     = Inr (\<lparr>isActive = 1, currentState = Finite (1 / 2), changedSinceLastSync = 1,
             lastChangeTime = 10000000000\<rparr>\<lparr>changedSinceLastSync := 0\<rparr>)"
  proof -
    have "currentState \<lparr>isActive = 1 :: XrBool32, currentState = Finite (1 / 2),
             changedSinceLastSync = 1 :: XrBool32, lastChangeTime = 10000000000 :: XrTime\<rparr> \<noteq> NaN"
      by simp
    with c trigger_query show ?thesis by blast
  qed
  have v: "fst (xrGetActionStateVector2f nanoseconds
          (snd (xrGetActionStateVector2f nanoseconds session_runtime 1 get_thumbstick
                  XR_TYPE_ACTION_STATE_VECTOR2F))
          1 get_thumbstick XR_TYPE_ACTION_STATE_VECTOR2F)
     = Inr (\<lparr>isActive = 1, currentState = XrVector2f (Finite (1 / 4)) (Finite (- 1)),
             changedSinceLastSync = 1, lastChangeTime = 10000000000\<rparr>\<lparr>changedSinceLastSync := 0\<rparr>)"
  proof -
    have "vec_x (currentState \<lparr>isActive = 1 :: XrBool32,
             currentState = XrVector2f (Finite (1 / 4)) (Finite (- 1)),
             changedSinceLastSync = 1 :: XrBool32, lastChangeTime = 10000000000 :: XrTime\<rparr>) \<noteq> NaN"
      "vec_y (currentState \<lparr>isActive = 1 :: XrBool32,
             currentState = XrVector2f (Finite (1 / 4)) (Finite (- 1)),
             changedSinceLastSync = 1 :: XrBool32, lastChangeTime = 10000000000 :: XrTime\<rparr>) \<noteq> NaN"
      by simp_all
    with c thumbstick_query show ?thesis by blast
  qed
  from b f v show ?thesis by simp
qed

lemma nan_trigger_query:
  "xrGetActionStateFloat nanoseconds nan_runtime 1 get_trigger XR_TYPE_ACTION_STATE_FLOAT
     = (Inr \<lparr>isActive = 1, currentState = NaN, changedSinceLastSync = 1,
              lastChangeTime = 10000000000\<rparr>,
        nan_runtime\<lparr>m_actions := (m_actions nan_runtime)(101 \<mapsto>
          trigger_action\<lparr>lastFloatValue := NaN, lastFloatValueChangedTime := 10000000000\<rparr>)\<rparr>)"
  by (simp add: xrGetActionStateFloat_def validate_action_def float_state_def session_defs
      nan_runtime_def path_defs nanoseconds_def Let_def)

text \<open>
  C7 as stated fails: the left trigger reads NaN. The float query of the trigger
  action reports a change, and the same query repeated at once reports a change
  again, since a NaN differs from itself under \<open>!=\<close>.
\<close>

theorem nan_reading_changes_again_counterexample:
  "fst (xrGetActionStateFloat nanoseconds nan_runtime 1 get_trigger XR_TYPE_ACTION_STATE_FLOAT)
     = Inr \<lparr>isActive = 1, currentState = NaN, changedSinceLastSync = 1,
             lastChangeTime = 10000000000\<rparr>
   \<and> fst (xrGetActionStateFloat nanoseconds
            (snd (xrGetActionStateFloat nanoseconds nan_runtime 1 get_trigger
                    XR_TYPE_ACTION_STATE_FLOAT))
            1 get_trigger XR_TYPE_ACTION_STATE_FLOAT)
       = Inr \<lparr>isActive = 1, currentState = NaN, changedSinceLastSync = 1,
               lastChangeTime = 10000000000\<rparr>"
proof -
  have "fst (xrGetActionStateFloat nanoseconds
            (nan_runtime\<lparr>m_actions := (m_actions nan_runtime)(101 \<mapsto>
          trigger_action\<lparr>lastFloatValue := NaN, lastFloatValueChangedTime := 10000000000\<rparr>)\<rparr>)
            1 get_trigger XR_TYPE_ACTION_STATE_FLOAT)
       = Inr \<lparr>isActive = 1, currentState = NaN, changedSinceLastSync = 1,
               lastChangeTime = 10000000000\<rparr>"
    by (simp add: xrGetActionStateFloat_def validate_action_def float_state_def session_defs
      nan_runtime_def path_defs nanoseconds_def Let_def)
  then show ?thesis
    by (simp add: nan_trigger_query)
qed

section \<open>When an action is active\<close>

lemma resolves_to_present_hand_latch:
  "resolves_to_present_hand (rt\<lparr>m_frameLatchedActionSets := L\<rparr>) a sub
     = resolves_to_present_hand rt a sub"
  by (simp add: resolves_to_present_hand_def getActionPath_def getXrPath_def)

lemma boolean_state_active:
  assumes "boolean_state rt a sub = Inr (active, current)"
  shows "active = of_bool (path a \<noteq> [] \<and> (buttonMap a \<noteq> None \<or> floatValue a \<noteq> None)
                           \<and> resolves_to_present_hand rt a sub)"
  using assms unfolding boolean_state_def resolves_to_present_hand_def
  by (auto simp add: Let_def XR_FALSE_def split: if_splits option.splits)

lemma float_state_active:
  assumes "float_state rt a sub = Inr (active, current)"
  shows "active = of_bool (path a \<noteq> []
                           \<and> (floatValue a \<noteq> None
                               \<or> (vector2fValue a \<noteq> None \<and> 0 \<le> vector2fIndex a)
                               \<or> buttonMap a = None)
                           \<and> resolves_to_present_hand rt a sub)"
  using assms unfolding float_state_def resolves_to_present_hand_def
  by (auto simp add: Let_def XR_FALSE_def split: if_splits option.splits)

lemma vector2f_state_active:
  assumes "vector2f_state rt a sub = Inr (active, current)"
  shows "active = of_bool (path a \<noteq> [] \<and> vector2fValue a \<noteq> None
                           \<and> resolves_to_present_hand rt a sub)"
  using assms unfolding vector2f_state_def resolves_to_present_hand_def
  by (auto simp add: Let_def XR_FALSE_def split: if_splits option.splits)

lemma pose_state_active:
  "pose_state rt a sub = of_bool (path a \<noteq> [] \<and> resolves_to_present_hand rt a sub)"
  unfolding pose_state_def resolves_to_present_hand_def
  by (auto simp add: Let_def XR_FALSE_def)

lemma boolean_isActive:
  assumes "xrGetActionStateBoolean t rt session g ty = (Inr st, rt')"
    and "m_actions rt (getInfo_action g) = Some a"
  shows "isActive st = of_bool (path a \<noteq> [] \<and> (buttonMap a \<noteq> None \<or> floatValue a \<noteq> None)
                                \<and> resolves_to_present_hand rt a (getInfo_subactionPath g))"
proof -
  from assms obtain active current where
    b: "boolean_state rt a (getInfo_subactionPath g) = Inr (active, current)" and
    st: "isActive st = active"
    unfolding xrGetActionStateBoolean_def validate_action_def
    by (auto simp add: Let_def split: if_splits sum.splits option.splits prod.splits)
  from boolean_state_active [OF b] st show ?thesis
    by simp
qed

lemma float_isActive:
  assumes "xrGetActionStateFloat t rt session g ty = (Inr st, rt')"
    and "m_actions rt (getInfo_action g) = Some a"
  shows "isActive st = of_bool (path a \<noteq> []
                                \<and> (floatValue a \<noteq> None
                                    \<or> (vector2fValue a \<noteq> None \<and> 0 \<le> vector2fIndex a)
                                    \<or> buttonMap a = None)
                                \<and> resolves_to_present_hand rt a (getInfo_subactionPath g))"
proof -
  from assms obtain active current where
    b: "float_state rt a (getInfo_subactionPath g) = Inr (active, current)" and
    st: "isActive st = active"
    unfolding xrGetActionStateFloat_def validate_action_def
    by (auto simp add: Let_def split: if_splits sum.splits option.splits prod.splits)
  from float_state_active [OF b] st show ?thesis
    by simp
qed

lemma vector2f_isActive:
  assumes "xrGetActionStateVector2f t rt session g ty = (Inr st, rt')"
    and "m_actions rt (getInfo_action g) = Some a"
  shows "isActive st = of_bool (path a \<noteq> [] \<and> vector2fValue a \<noteq> None
                                \<and> resolves_to_present_hand rt a (getInfo_subactionPath g))"
proof -
  from assms obtain active current where
    b: "vector2f_state rt a (getInfo_subactionPath g) = Inr (active, current)" and
    st: "isActive st = active"
    unfolding xrGetActionStateVector2f_def validate_action_def
    by (auto simp add: Let_def split: if_splits sum.splits option.splits prod.splits)
  from vector2f_state_active [OF b] st show ?thesis
    by simp
qed

lemma pose_isActive:
  assumes "xrGetActionStatePose rt session g ty = (Inr st, rt')"
    and "m_actions rt (getInfo_action g) = Some a"
  shows "isActive st = of_bool (path a \<noteq> []
                                \<and> resolves_to_present_hand rt a (getInfo_subactionPath g))"
  using assms
  unfolding xrGetActionStatePose_def validate_action_def
  by (auto simp add: pose_state_active split: if_splits sum.splits option.splits)

text \<open>
  C1, amended. In a successful query of any of the four types, \<open>isActive\<close> is false
  unless the action has a bound path (and, for a boolean action, a button or float
  field; for a two-axis action, a two-axis field), the full action path resolves to a
  hand, and the controller of that hand is detected present. For a boolean, a two-axis
  and a pose action, and for a float action bound through a float field or a component
  of a two-axis field, \<open>isActive\<close> is true when these hold. Whether the set of the
  action is latched plays no part: the same query with any other collection of latched
  sets, when it succeeds, reports the same \<open>isActive\<close>.
\<close>

theorem isActive_needs_binding_and_present_hand:
  assumes "m_actions rt (getInfo_action gb) = Some ab"
    and "m_actions rt (getInfo_action gf) = Some af"
    and "m_actions rt (getInfo_action gv) = Some av"
    and "m_actions rt (getInfo_action gp) = Some ap"
  shows "(xrGetActionStateBoolean t rt session gb tb = (Inr sb, rb)
            \<longrightarrow> (isActive sb \<noteq> 0)
                  = (path ab \<noteq> [] \<and> (buttonMap ab \<noteq> None \<or> floatValue ab \<noteq> None)
                     \<and> resolves_to_present_hand rt ab (getInfo_subactionPath gb))
                \<and> (xrGetActionStateBoolean t (rt\<lparr>m_frameLatchedActionSets := L\<rparr>) session gb tb
                       = (Inr sb', rb')
                     \<longrightarrow> isActive sb' = isActive sb))
         \<and> (xrGetActionStateFloat t rt session gf tf = (Inr sf, rf)
            \<longrightarrow> (isActive sf \<noteq> 0
                   \<longrightarrow> path af \<noteq> []
                       \<and> resolves_to_present_hand rt af (getInfo_subactionPath gf))
                \<and> (path af \<noteq> []
                     \<and> (floatValue af \<noteq> None
                         \<or> (vector2fValue af \<noteq> None \<and> 0 \<le> vector2fIndex af))
                     \<and> resolves_to_present_hand rt af (getInfo_subactionPath gf)
                     \<longrightarrow> isActive sf \<noteq> 0)
                \<and> (xrGetActionStateFloat t (rt\<lparr>m_frameLatchedActionSets := L\<rparr>) session gf tf
                       = (Inr sf', rf')
                     \<longrightarrow> isActive sf' = isActive sf))
         \<and> (xrGetActionStateVector2f t rt session gv tv = (Inr sv, rv)
            \<longrightarrow> (isActive sv \<noteq> 0)
                  = (path av \<noteq> [] \<and> vector2fValue av \<noteq> None
                     \<and> resolves_to_present_hand rt av (getInfo_subactionPath gv))
                \<and> (xrGetActionStateVector2f t (rt\<lparr>m_frameLatchedActionSets := L\<rparr>) session gv tv
                       = (Inr sv', rv')
                     \<longrightarrow> isActive sv' = isActive sv))
         \<and> (xrGetActionStatePose rt session gp tp = (Inr sp, rp)
            \<longrightarrow> (isActive sp \<noteq> 0)
                  = (path ap \<noteq> []
                     \<and> resolves_to_present_hand rt ap (getInfo_subactionPath gp))
                \<and> (xrGetActionStatePose (rt\<lparr>m_frameLatchedActionSets := L\<rparr>) session gp tp
                       = (Inr sp', rp')
                     \<longrightarrow> isActive sp' = isActive sp))"
proof -
  have look: "m_actions (rt\<lparr>m_frameLatchedActionSets := L\<rparr>) (getInfo_action gb) = Some ab"
    "m_actions (rt\<lparr>m_frameLatchedActionSets := L\<rparr>) (getInfo_action gf) = Some af"
    "m_actions (rt\<lparr>m_frameLatchedActionSets := L\<rparr>) (getInfo_action gv) = Some av"
    "m_actions (rt\<lparr>m_frameLatchedActionSets := L\<rparr>) (getInfo_action gp) = Some ap"
    using assms by simp_all
  have b1: "(isActive sb \<noteq> 0)
              = (path ab \<noteq> [] \<and> (buttonMap ab \<noteq> None \<or> floatValue ab \<noteq> None)
                 \<and> resolves_to_present_hand rt ab (getInfo_subactionPath gb))"
    if "xrGetActionStateBoolean t rt session gb tb = (Inr sb, rb)"
    using boolean_isActive [OF that assms(1)] by simp
  have b2: "isActive sb' = isActive sb"
    if "xrGetActionStateBoolean t rt session gb tb = (Inr sb, rb)"
      and "xrGetActionStateBoolean t (rt\<lparr>m_frameLatchedActionSets := L\<rparr>) session gb tb
             = (Inr sb', rb')"
    using boolean_isActive [OF that(1) assms(1)] boolean_isActive [OF that(2) look(1)]
    by (simp add: resolves_to_present_hand_latch)
  have f1: "path af \<noteq> [] \<and> resolves_to_present_hand rt af (getInfo_subactionPath gf)"
    if "xrGetActionStateFloat t rt session gf tf = (Inr sf, rf)" and "isActive sf \<noteq> 0"
    using float_isActive [OF that(1) assms(2)] that(2) by (simp split: if_splits)
  have f2: "isActive sf \<noteq> 0"
    if "xrGetActionStateFloat t rt session gf tf = (Inr sf, rf)"
      and "path af \<noteq> []
           \<and> (floatValue af \<noteq> None \<or> (vector2fValue af \<noteq> None \<and> 0 \<le> vector2fIndex af))
           \<and> resolves_to_present_hand rt af (getInfo_subactionPath gf)"
    using float_isActive [OF that(1) assms(2)] that(2) by auto
  have f3: "isActive sf' = isActive sf"
    if "xrGetActionStateFloat t rt session gf tf = (Inr sf, rf)"
      and "xrGetActionStateFloat t (rt\<lparr>m_frameLatchedActionSets := L\<rparr>) session gf tf
             = (Inr sf', rf')"
    using float_isActive [OF that(1) assms(2)] float_isActive [OF that(2) look(2)]
    by (simp add: resolves_to_present_hand_latch)
  have v1: "(isActive sv \<noteq> 0)
              = (path av \<noteq> [] \<and> vector2fValue av \<noteq> None
                 \<and> resolves_to_present_hand rt av (getInfo_subactionPath gv))"
    if "xrGetActionStateVector2f t rt session gv tv = (Inr sv, rv)"
    using vector2f_isActive [OF that assms(3)] by simp
  have v2: "isActive sv' = isActive sv"
    if "xrGetActionStateVector2f t rt session gv tv = (Inr sv, rv)"
      and "xrGetActionStateVector2f t (rt\<lparr>m_frameLatchedActionSets := L\<rparr>) session gv tv
             = (Inr sv', rv')"
    using vector2f_isActive [OF that(1) assms(3)] vector2f_isActive [OF that(2) look(3)]
    by (simp add: resolves_to_present_hand_latch)
  have p1: "(isActive sp \<noteq> 0)
              = (path ap \<noteq> [] \<and> resolves_to_present_hand rt ap (getInfo_subactionPath gp))"
    if "xrGetActionStatePose rt session gp tp = (Inr sp, rp)"
    using pose_isActive [OF that assms(4)] by simp
  have p2: "isActive sp' = isActive sp"
    if "xrGetActionStatePose rt session gp tp = (Inr sp, rp)"
      and "xrGetActionStatePose (rt\<lparr>m_frameLatchedActionSets := L\<rparr>) session gp tp
             = (Inr sp', rp')"
    using pose_isActive [OF that(1) assms(4)] pose_isActive [OF that(2) look(4)]
    by (simp add: resolves_to_present_hand_latch)
  show ?thesis
    apply (intro conjI impI)
              apply (erule b1)
             apply (erule (1) b2)
            apply (erule (1) f1 [THEN conjunct1])
           apply (erule (1) f1 [THEN conjunct2])
          apply (erule (1) f2)
         apply (erule (1) f3)
        apply (erule v1)
       apply (erule (1) v2)
      apply (erule p1)
     apply (erule (1) p2)
    done
qed

lemma unlatched_select_query:
  "xrGetActionStateBoolean nanoseconds unlatched_runtime 1 get_select XR_TYPE_ACTION_STATE_BOOLEAN
     = (Inr \<lparr>isActive = 1, currentState = 0, changedSinceLastSync = 0, lastChangeTime = 0\<rparr>,
        snd (xrGetActionStateBoolean nanoseconds unlatched_runtime 1 get_select
               XR_TYPE_ACTION_STATE_BOOLEAN))"
  by (simp add: xrGetActionStateBoolean_def validate_action_def boolean_state_def session_defs
      unlatched_runtime_def path_defs nanoseconds_def Let_def)

lemma unlatched_trigger_query:
  "xrGetActionStateFloat nanoseconds unlatched_runtime 1 get_trigger XR_TYPE_ACTION_STATE_FLOAT
     = (Inr \<lparr>isActive = 1, currentState = Finite 0, changedSinceLastSync = 0,
              lastChangeTime = 0\<rparr>,
        snd (xrGetActionStateFloat nanoseconds unlatched_runtime 1 get_trigger
               XR_TYPE_ACTION_STATE_FLOAT))"
  by (simp add: xrGetActionStateFloat_def validate_action_def float_state_def session_defs
      unlatched_runtime_def path_defs nanoseconds_def Let_def)

lemma unlatched_thumbstick_query:
  "xrGetActionStateVector2f nanoseconds unlatched_runtime 1 get_thumbstick
       XR_TYPE_ACTION_STATE_VECTOR2F
     = (Inr \<lparr>isActive = 1, currentState = XrVector2f (Finite 0) (Finite 0),
              changedSinceLastSync = 0, lastChangeTime = 0\<rparr>,
        snd (xrGetActionStateVector2f nanoseconds unlatched_runtime 1 get_thumbstick
               XR_TYPE_ACTION_STATE_VECTOR2F))"
  by (simp add: xrGetActionStateVector2f_def validate_action_def vector2f_state_def session_defs
      unlatched_runtime_def path_defs nanoseconds_def Let_def)

lemma unlatched_grip_query:
  "xrGetActionStatePose unlatched_runtime 1 get_grip XR_TYPE_ACTION_STATE_POSE
     = (Inr \<lparr>isActive = 1\<rparr>, unlatched_runtime)"
  by (simp add: xrGetActionStatePose_def validate_action_def pose_state_def session_defs
      unlatched_runtime_def path_defs Let_def)

lemma grip_query:
  "xrGetActionStatePose session_runtime 1 get_grip XR_TYPE_ACTION_STATE_POSE
     = (Inr \<lparr>isActive = 1\<rparr>, session_runtime)"
  by (simp add: xrGetActionStatePose_def validate_action_def pose_state_def session_defs
      path_defs Let_def)

theorem isActive_needs_binding_and_present_hand_witness:
  "resolves_to_present_hand session_runtime select_action (getInfo_subactionPath get_select)
   \<and> resolves_to_present_hand session_runtime trigger_action (getInfo_subactionPath get_trigger)
   \<and> resolves_to_present_hand session_runtime thumbstick_action
        (getInfo_subactionPath get_thumbstick)
   \<and> resolves_to_present_hand session_runtime grip_action (getInfo_subactionPath get_grip)
   \<and> isActive \<lparr>isActive = 1 :: XrBool32, currentState = 0 :: XrBool32,
                  changedSinceLastSync = 0 :: XrBool32, lastChangeTime = 0 :: XrTime\<rparr>
       = isActive \<lparr>isActive = 1 :: XrBool32, currentState = 4 :: XrBool32,
                    changedSinceLastSync = 1 :: XrBool32,
                    lastChangeTime = 10000000000 :: XrTime\<rparr>"
proof -
  have a: "m_actions session_runtime (getInfo_action get_select) = Some select_action"
    "m_actions session_runtime (getInfo_action get_trigger) = Some trigger_action"
    "m_actions session_runtime (getInfo_action get_thumbstick) = Some thumbstick_action"
    "m_actions session_runtime (getInfo_action get_grip) = Some grip_action"
    by (simp_all add: session_runtime_def initial_runtime_def
        get_select_def get_trigger_def get_thumbstick_def get_grip_def)
  note c = isActive_needs_binding_and_present_hand [OF a, of nanoseconds 1
      XR_TYPE_ACTION_STATE_BOOLEAN _ _ "{}" _ _
      XR_TYPE_ACTION_STATE_FLOAT _ _ _ _
      XR_TYPE_ACTION_STATE_VECTOR2F _ _ _ _
      XR_TYPE_ACTION_STATE_POSE]
  have b: "isActive \<lparr>isActive = 1 :: XrBool32, currentState = 4 :: XrBool32,
                     changedSinceLastSync = 1 :: XrBool32,
                     lastChangeTime = 10000000000 :: XrTime\<rparr> \<noteq> 0"
    "isActive \<lparr>isActive = 1 :: XrBool32, currentState = Finite (1 / 2),
                changedSinceLastSync = 1 :: XrBool32,
                lastChangeTime = 10000000000 :: XrTime\<rparr> \<noteq> 0"
    "isActive \<lparr>isActive = 1 :: XrBool32,
                currentState = XrVector2f (Finite (1 / 4)) (Finite (- 1)),
                changedSinceLastSync = 1 :: XrBool32,
                lastChangeTime = 10000000000 :: XrTime\<rparr> \<noteq> 0"
    "isActive \<lparr>isActive = 1 :: XrBool32\<rparr> \<noteq> 0"
    by simp_all
  from c select_query b(1)
  have s: "resolves_to_present_hand session_runtime select_action
             (getInfo_subactionPath get_select)"
    by blast
  from c select_query unlatched_select_query [unfolded unlatched_runtime_def]
  have l: "isActive \<lparr>isActive = 1 :: XrBool32, currentState = 0 :: XrBool32,
                  changedSinceLastSync = 0 :: XrBool32, lastChangeTime = 0 :: XrTime\<rparr>
       = isActive \<lparr>isActive = 1 :: XrBool32, currentState = 4 :: XrBool32,
                    changedSinceLastSync = 1 :: XrBool32,
                    lastChangeTime = 10000000000 :: XrTime\<rparr>"
    by blast
  from c trigger_query b(2)
  have f: "resolves_to_present_hand session_runtime trigger_action
             (getInfo_subactionPath get_trigger)"
    by blast
  from c thumbstick_query b(3)
  have v: "resolves_to_present_hand session_runtime thumbstick_action
             (getInfo_subactionPath get_thumbstick)"
    by blast
  from c grip_query b(4)
  have p: "resolves_to_present_hand session_runtime grip_action
             (getInfo_subactionPath get_grip)"
    by blast
  from s f v p l show ?thesis
    by (intro conjI)
qed

text \<open>
  C1 as stated fails: a click action is created, suggested for the simple controller,
  and its set attached; the only synchronisation declares no set, while an Index
  controller is detected on the left. The click is bound to the left hand, whose
  controller is present, and its set is attached but not latched; the boolean query
  succeeds and reports the action active.
\<close>

theorem isActive_without_latch_counterexample:
  "fst (xrGetActionStateBoolean nanoseconds never_latched_runtime 1 get_select
          XR_TYPE_ACTION_STATE_BOOLEAN)
     = Inr \<lparr>isActive = 1, currentState = 0, changedSinceLastSync = 0, lastChangeTime = 0\<rparr>
   \<and> map_option actionSet (m_actions never_latched_runtime (getInfo_action get_select)) = Some 1
   \<and> 1 \<in> m_activeActionSets never_latched_runtime
   \<and> 1 \<notin> m_frameLatchedActionSets never_latched_runtime"
  by (simp add: xrGetActionStateBoolean_def validate_action_def boolean_state_def get_select_def
      never_latched_runtime_fields new_Action_def path_defs Let_def)

section \<open>The resolver for an absent controller\<close>












end
